theory Spec2Isabelle
  imports Complex_Main "HOL-Library.Multiset"
begin

section \<open>Notions of the Go runtime used by the package\<close>

text \<open>
  A \<open>time.Time\<close> is an instant, counted from the zero time; \<open>IsZero\<close> tests for the
  zero value and \<open>Before\<close> is the strict order of instants.
\<close>

type_synonym time = int

definition IsZero :: "time \<Rightarrow> bool" where
  "IsZero t = (t = 0)"

definition Before :: "time \<Rightarrow> time \<Rightarrow> bool" where
  "Before t u = (t < u)"

text \<open>
  Go strings are byte sequences. The comparison operators on strings compare
  byte by byte, lexically; \<open>string_ge a b\<close> is Go's \<open>a >= b\<close>.
\<close>

fun string_lt :: "string \<Rightarrow> string \<Rightarrow> bool" where
  "string_lt [] [] = False"
| "string_lt [] (y # ys) = True"
| "string_lt (x # xs) [] = False"
| "string_lt (x # xs) (y # ys) =
     (if (of_char x :: nat) < of_char y then True
      else if (of_char y :: nat) < of_char x then False
      else string_lt xs ys)"

definition string_ge :: "string \<Rightarrow> string \<Rightarrow> bool" where
  "string_ge a b = (\<not> string_lt a b)"

text \<open>
  \<open>fmt.Sprintf("%d", i)\<close> for a slice index \<open>i\<close> (never negative): the decimal digits.
\<close>

definition digit :: "nat \<Rightarrow> char" where
  "digit d = ''0123456789'' ! d"

fun Itoa :: "nat \<Rightarrow> string" where
  "Itoa n = (if n < 10 then [digit n] else Itoa (n div 10) @ [digit (n mod 10)])"

declare Itoa.simps [simp del]

text \<open>
  The conversion \<open>int(x)\<close> of a \<open>float64\<close> discards the fraction (truncation
  towards zero). Floating-point numbers are modelled by the real numbers they denote.
\<close>

definition int_of_float :: "real \<Rightarrow> int" where
  "int_of_float x = (if 0 \<le> x then \<lfloor>x\<rfloor> else \<lceil>x\<rceil>)"

section \<open>Domain model (iso9001.go)\<close>

text \<open>
  The enumerations of the package are named string types with constants, so a field of
  such a type can hold any string. Pointers that may be nil are options. Every field of
  a struct carries the struct's name as a prefix, since record fields share one name space.
\<close>

type_synonym IssueType = string
type_synonym LeadershipCommitment = string
type_synonym ProcessStatus = string
type_synonym ObjectiveStatus = string
type_synonym RiskLevel = string
type_synonym OpportunityLevel = string
type_synonym RiskStatus = string
type_synonym OpportunityStatus = string
type_synonym ActionType = string
type_synonym ActionStatus = string
type_synonym ResourceType = string
type_synonym Impact = string
type_synonym Status = string
type_synonym Priority = string

abbreviation CommitmentQMSEffectiveness :: LeadershipCommitment where
  "CommitmentQMSEffectiveness \<equiv> ''qms_effectiveness''"
abbreviation CommitmentQualityPolicy :: LeadershipCommitment where
  "CommitmentQualityPolicy \<equiv> ''quality_policy''"
abbreviation CommitmentQMSIntegration :: LeadershipCommitment where
  "CommitmentQMSIntegration \<equiv> ''qms_integration''"
abbreviation CommitmentProcessApproach :: LeadershipCommitment where
  "CommitmentProcessApproach \<equiv> ''process_approach''"
abbreviation CommitmentRiskThinking :: LeadershipCommitment where
  "CommitmentRiskThinking \<equiv> ''risk_based_thinking''"
abbreviation CommitmentResources :: LeadershipCommitment where
  "CommitmentResources \<equiv> ''resources_available''"
abbreviation CommitmentImportanceQMS :: LeadershipCommitment where
  "CommitmentImportanceQMS \<equiv> ''importance_qms''"
abbreviation CommitmentConformity :: LeadershipCommitment where
  "CommitmentConformity \<equiv> ''conformity_requirements''"
abbreviation CommitmentQMSResults :: LeadershipCommitment where
  "CommitmentQMSResults \<equiv> ''qms_results''"
abbreviation CommitmentEngagement :: LeadershipCommitment where
  "CommitmentEngagement \<equiv> ''personnel_engagement''"
abbreviation CommitmentImprovement :: LeadershipCommitment where
  "CommitmentImprovement \<equiv> ''improvement''"
abbreviation CommitmentCustomerFocus :: LeadershipCommitment where
  "CommitmentCustomerFocus \<equiv> ''customer_focus''"

abbreviation ObjectiveStatusPlanned :: ObjectiveStatus where
  "ObjectiveStatusPlanned \<equiv> ''planned''"
abbreviation ObjectiveStatusInProgress :: ObjectiveStatus where
  "ObjectiveStatusInProgress \<equiv> ''in_progress''"
abbreviation ObjectiveStatusAchieved :: ObjectiveStatus where
  "ObjectiveStatusAchieved \<equiv> ''achieved''"
abbreviation ObjectiveStatusNotAchieved :: ObjectiveStatus where
  "ObjectiveStatusNotAchieved \<equiv> ''not_achieved''"

abbreviation RiskLevelVeryLow :: RiskLevel where
  "RiskLevelVeryLow \<equiv> ''very_low''"
abbreviation RiskLevelLow :: RiskLevel where
  "RiskLevelLow \<equiv> ''low''"
abbreviation RiskLevelMedium :: RiskLevel where
  "RiskLevelMedium \<equiv> ''medium''"
abbreviation RiskLevelHigh :: RiskLevel where
  "RiskLevelHigh \<equiv> ''high''"
abbreviation RiskLevelVeryHigh :: RiskLevel where
  "RiskLevelVeryHigh \<equiv> ''very_high''"

abbreviation RiskStatusIdentified :: RiskStatus where
  "RiskStatusIdentified \<equiv> ''identified''"
abbreviation RiskStatusAssessed :: RiskStatus where
  "RiskStatusAssessed \<equiv> ''assessed''"
abbreviation RiskStatusMitigated :: RiskStatus where
  "RiskStatusMitigated \<equiv> ''mitigated''"
abbreviation RiskStatusMonitored :: RiskStatus where
  "RiskStatusMonitored \<equiv> ''monitored''"

abbreviation OpportunityStatusIdentified :: OpportunityStatus where
  "OpportunityStatusIdentified \<equiv> ''identified''"
abbreviation OpportunityStatusPlanned :: OpportunityStatus where
  "OpportunityStatusPlanned \<equiv> ''planned''"
abbreviation OpportunityStatusImplemented :: OpportunityStatus where
  "OpportunityStatusImplemented \<equiv> ''implemented''"
abbreviation OpportunityStatusRealized :: OpportunityStatus where
  "OpportunityStatusRealized \<equiv> ''realized''"

abbreviation PriorityLow :: Priority where
  "PriorityLow \<equiv> ''low''"
abbreviation PriorityMedium :: Priority where
  "PriorityMedium \<equiv> ''medium''"
abbreviation PriorityHigh :: Priority where
  "PriorityHigh \<equiv> ''high''"
abbreviation PriorityCritical :: Priority where
  "PriorityCritical \<equiv> ''critical''"

record Issue =
  Issue_ID :: string
  Issue_Description :: string
  Issue_Type :: IssueType
  Issue_Impact :: Impact
  Issue_Status :: Status
  Issue_Created :: time

record InterestedParty =
  Party_ID :: string
  Party_Name :: string
  Party_Type :: string
  Party_Requirements :: "string list"

record Person =
  Person_ID :: string
  Person_Name :: string
  Person_Role :: string
  Person_Competence :: "string list"
  Person_Training :: "string list"

record OrganizationalRole =
  Role_ID :: string
  Role_Name :: string
  Role_Responsibilities :: "string list"
  Role_Authorities :: "string list"
  Role_AssignedTo :: string

record QualityPolicy =
  Policy_ID :: string
  Policy_Statement :: string
  Policy_Objectives :: string
  Policy_Commitment :: string
  Policy_Improvement :: string
  Policy_Communicated :: bool
  Policy_Available :: bool
  Policy_Created :: time
  Policy_Updated :: time

record Leadership =
  Leadership_TopManagement :: "Person list"
  Leadership_QualityPolicy :: "QualityPolicy option"
  Leadership_Roles :: "OrganizationalRole list"
  Leadership_Commitment :: "LeadershipCommitment list"

record Action =
  Action_ID :: string
  Action_Description :: string
  Action_Type :: ActionType
  Action_Responsible :: string
  Action_Timeline :: time
  Action_Status :: ActionStatus
  Action_Created :: time

record Risk =
  Risk_ID :: string
  Risk_Description :: string
  Risk_Causes :: "string list"
  Risk_Effects :: "string list"
  Risk_Likelihood :: RiskLevel
  Risk_Impact :: RiskLevel
  Risk_Priority :: Priority
  Risk_Mitigation :: "Action list"
  Risk_Status :: RiskStatus
  Risk_Created :: time

record Opportunity =
  Opportunity_ID :: string
  Opportunity_Description :: string
  Opportunity_Benefits :: "string list"
  Opportunity_Likelihood :: OpportunityLevel
  Opportunity_Impact :: OpportunityLevel
  Opportunity_Priority :: int
  Opportunity_Actions :: "Action list"
  Opportunity_Status :: OpportunityStatus
  Opportunity_Created :: time

record ProcessInput =
  Input_ID :: string
  Input_Name :: string
  Input_Type :: string
  Input_Source :: string

record ProcessOutput =
  Output_ID :: string
  Output_Name :: string
  Output_Type :: string
  Output_Destination :: string

record Resource =
  Resource_ID :: string
  Resource_Type :: ResourceType
  Resource_Name :: string
  Resource_Description :: string
  Resource_Quantity :: string
  Resource_Available :: bool

record ProcessCriteria =
  Criteria_ID :: string
  Criteria_Name :: string
  Criteria_Description :: string
  Criteria_Metric :: string
  Criteria_Target :: string

record Process =
  Process_ID :: string
  Process_Name :: string
  Process_Description :: string
  Process_Inputs :: "ProcessInput list"
  Process_Outputs :: "ProcessOutput list"
  Process_Resources :: "Resource list"
  Process_Responsibilities :: "string list"
  Process_Criteria :: "ProcessCriteria list"
  Process_Risks :: "Risk list"
  Process_Opportunities :: "Opportunity list"
  Process_Status :: ProcessStatus
  Process_Created :: time

record ObjectiveTarget =
  Target_ID :: string
  Target_Metric :: string
  Target_Value :: string
  Target_Unit :: string

record ObjectiveTimeline =
  Timeline_StartDate :: time
  Timeline_TargetDate :: time
  Timeline_ReviewDate :: time

record QualityObjective =
  Objective_ID :: string
  Objective_Name :: string
  Objective_Description :: string
  Objective_Measurable :: bool
  Objective_Targets :: "ObjectiveTarget list"
  Objective_Responsible :: string
  Objective_Timeline :: ObjectiveTimeline
  Objective_Status :: ObjectiveStatus
  Objective_Created :: time

record Exclusion =
  Exclusion_Clause :: string
  Exclusion_Description :: string
  Exclusion_Justification :: string

record QMSScope =
  Scope_Description :: string
  Scope_Products :: "string list"
  Scope_Services :: "string list"
  Scope_Exclusions :: "Exclusion list"
  Scope_Justification :: string

record QualityManagementSystem =
  QMS_ID :: string
  QMS_Scope :: "QMSScope option"
  QMS_Processes :: "Process list"
  QMS_Objectives :: "QualityObjective list"
  QMS_Risks :: "Risk list"
  QMS_Opportunities :: "Opportunity list"
  QMS_Created :: time

record OrganizationalContext =
  Context_ExternalIssues :: "Issue list"
  Context_InternalIssues :: "Issue list"
  Context_InterestedParties :: "InterestedParty list"

record Organization =
  Org_ID :: string
  Org_Name :: string
  Org_Context :: "OrganizationalContext option"
  Org_Leadership :: "Leadership option"
  Org_QMS :: "QualityManagementSystem option"
  Org_Created :: time
  Org_Modified :: time

section \<open>Validation findings and results (validation.go)\<close>

record ValidationError =
  ValErr_Clause :: string
  ValErr_Field :: string
  ValErr_Message :: string
  ValErr_Severity :: string

record ValidationResult =
  Result_Valid :: bool
  Result_Errors :: "ValidationError list"
  Result_Warnings :: "ValidationError list"
  Result_Infos :: "ValidationError list"

text \<open>The literal \<open>&ValidationResult{Valid: true}\<close> every checker starts from.\<close>

definition newResult :: ValidationResult where
  "newResult = \<lparr>Result_Valid = True, Result_Errors = [], Result_Warnings = [], Result_Infos = []\<rparr>"

definition mkFinding :: "string \<Rightarrow> string \<Rightarrow> string \<Rightarrow> string \<Rightarrow> ValidationError" where
  "mkFinding severity clause field message =
     \<lparr>ValErr_Clause = clause, ValErr_Field = field, ValErr_Message = message,
      ValErr_Severity = severity\<rparr>"

definition addError :: "string \<Rightarrow> string \<Rightarrow> string \<Rightarrow> ValidationResult \<Rightarrow> ValidationResult" where
  "addError clause field message r =
     r\<lparr>Result_Errors := Result_Errors r @ [mkFinding ''error'' clause field message],
       Result_Valid := False\<rparr>"

definition addWarning :: "string \<Rightarrow> string \<Rightarrow> string \<Rightarrow> ValidationResult \<Rightarrow> ValidationResult" where
  "addWarning clause field message r =
     r\<lparr>Result_Warnings := Result_Warnings r @ [mkFinding ''warning'' clause field message]\<rparr>"

definition addInfo :: "string \<Rightarrow> string \<Rightarrow> string \<Rightarrow> ValidationResult \<Rightarrow> ValidationResult" where
  "addInfo clause field message r =
     r\<lparr>Result_Infos := Result_Infos r @ [mkFinding ''info'' clause field message]\<rparr>"

definition merge :: "ValidationResult \<Rightarrow> ValidationResult \<Rightarrow> ValidationResult" where
  "merge r other =
     r\<lparr>Result_Errors := Result_Errors r @ Result_Errors other,
       Result_Warnings := Result_Warnings r @ Result_Warnings other,
       Result_Infos := Result_Infos r @ Result_Infos other,
       Result_Valid := (if \<not> Result_Valid other then False else Result_Valid r)\<rparr>"

text \<open>
  A checker is a sequence of statements on its result: \<open>run\<close> executes them in order,
  and \<open>check c f\<close> is the statement \<open>if c { f }\<close>.
\<close>

definition run :: "('s \<Rightarrow> 's) list \<Rightarrow> 's \<Rightarrow> 's" where
  "run steps r = fold (\<lambda>step. step) steps r"

definition check :: "bool \<Rightarrow> ('s \<Rightarrow> 's) \<Rightarrow> 's \<Rightarrow> 's" where
  "check c f r = (if c then f r else r)"

subsection \<open>Clause 4.1: context\<close>

definition validateContext_issue :: "nat \<times> Issue \<Rightarrow> ValidationResult \<Rightarrow> ValidationResult" where
  "validateContext_issue = (\<lambda>(i, issue). run [
     check (Issue_Description issue = '''')
       (addError ''4.1'' (''issue_'' @ Itoa i @ ''_description'') ''Issue must have a description''),
     check (Issue_Type issue = '''')
       (addError ''4.1'' (''issue_'' @ Itoa i @ ''_type'')
          ''Issue must have a type (external/internal)'')])"

definition validateContext :: "Organization \<Rightarrow> ValidationResult" where
  "validateContext org =
     (case Org_Context org of
        None \<Rightarrow> addError ''4.1'' ''context'' ''Organizational context must be defined'' newResult
      | Some ctx \<Rightarrow> run [
          check (length (Context_ExternalIssues ctx) = 0)
            (addWarning ''4.1'' ''external_issues''
               ''No external issues identified - consider reviewing legal, technological, competitive, market, cultural, social and economic environments''),
          check (length (Context_InternalIssues ctx) = 0)
            (addWarning ''4.1'' ''internal_issues''
               ''No internal issues identified - consider reviewing values, culture, knowledge and performance''),
          fold validateContext_issue
            (enumerate 0 (Context_ExternalIssues ctx @ Context_InternalIssues ctx))
        ] newResult)"

subsection \<open>Clause 4.2: interested parties\<close>

text \<open>
  The loop carries the result and the three flags \<open>hasCustomers\<close>, \<open>hasSuppliers\<close>
  and \<open>hasRegulators\<close>.
\<close>

definition validateInterestedParties_party ::
  "InterestedParty \<Rightarrow> ValidationResult \<times> bool \<times> bool \<times> bool
     \<Rightarrow> ValidationResult \<times> bool \<times> bool \<times> bool" where
  "validateInterestedParties_party party = (\<lambda>(r, hasCustomers, hasSuppliers, hasRegulators).
     (run [
        check (Party_Name party = '''')
          (addError ''4.2'' ''party_name'' ''Interested party must have a name''),
        check (length (Party_Requirements party) = 0)
          (addWarning ''4.2'' (''party_'' @ Party_Name party @ ''_requirements'')
             ''No requirements specified for interested party'')] r,
      (if Party_Type party = ''customer'' then True else hasCustomers),
      (if Party_Type party = ''supplier'' \<or> Party_Type party = ''external_provider''
       then True else hasSuppliers),
      (if Party_Type party = ''regulator'' \<or> Party_Type party = ''authority''
       then True else hasRegulators)))"

definition validateInterestedParties_missing :: ValidationResult where
  "validateInterestedParties_missing =
     addError ''4.2'' ''interested_parties''
       ''Interested parties must be identified and their requirements determined'' newResult"

definition validateInterestedParties :: "Organization \<Rightarrow> ValidationResult" where
  "validateInterestedParties org =
     (case Org_Context org of
        None \<Rightarrow> validateInterestedParties_missing
      | Some ctx \<Rightarrow>
          if length (Context_InterestedParties ctx) = 0 then validateInterestedParties_missing
          else
            (case fold validateInterestedParties_party (Context_InterestedParties ctx)
                    (newResult, False, False, False) of
               (r, hasCustomers, hasSuppliers, hasRegulators) \<Rightarrow> run [
                 check (\<not> hasCustomers)
                   (addWarning ''4.2'' ''customers''
                      ''No customers identified as interested parties''),
                 check (\<not> hasSuppliers)
                   (addWarning ''4.2'' ''suppliers''
                      ''No suppliers/external providers identified as interested parties''),
                 check (\<not> hasRegulators)
                   (addInfo ''4.2'' ''regulators''
                      ''Consider identifying regulatory authorities as interested parties'')] r))"

subsection \<open>Clause 4.3: scope\<close>

definition validateQMSScope_exclusion :: "nat \<times> Exclusion \<Rightarrow> ValidationResult \<Rightarrow> ValidationResult" where
  "validateQMSScope_exclusion = (\<lambda>(i, exclusion). run [
     check (Exclusion_Clause exclusion = '''')
       (addError ''4.3'' (''exclusion_'' @ Itoa i @ ''_clause'')
          ''Exclusion must specify which clause is not applicable''),
     check (Exclusion_Justification exclusion = '''')
       (addError ''4.3'' (''exclusion_'' @ Itoa i @ ''_justification'')
          (''Exclusion must be justified and not affect organization'' @ [CHR 0x27]
             @ ''s ability to meet requirements''))])"

definition validateQMSScope_missing :: ValidationResult where
  "validateQMSScope_missing =
     addError ''4.3'' ''scope'' ''QMS scope must be determined and documented'' newResult"

definition validateQMSScope :: "Organization \<Rightarrow> ValidationResult" where
  "validateQMSScope org =
     (case Org_QMS org of
        None \<Rightarrow> validateQMSScope_missing
      | Some qms \<Rightarrow>
         (case QMS_Scope qms of
            None \<Rightarrow> validateQMSScope_missing
          | Some scope \<Rightarrow> run [
              check (Scope_Description scope = '''')
                (addError ''4.3'' ''scope_description''
                   ''Scope must include a description of products and services covered''),
              check (length (Scope_Products scope) = 0 \<and> length (Scope_Services scope) = 0)
                (addError ''4.3'' ''scope_coverage''
                   ''Scope must specify the types of products and services covered''),
              fold validateQMSScope_exclusion (enumerate 0 (Scope_Exclusions scope))
            ] newResult))"

subsection \<open>Clause 4.4: processes\<close>

definition validateQMSProcesses_process :: "nat \<times> Process \<Rightarrow> ValidationResult \<Rightarrow> ValidationResult" where
  "validateQMSProcesses_process = (\<lambda>(i, process). run [
     check (Process_Name process = '''')
       (addError ''4.4'' (''process_'' @ Itoa i @ ''_name'') ''Process must have a name''),
     check (length (Process_Inputs process) = 0)
       (addWarning ''4.4'' (''process_'' @ Process_Name process @ ''_inputs'')
          ''Process inputs should be defined''),
     check (length (Process_Outputs process) = 0)
       (addWarning ''4.4'' (''process_'' @ Process_Name process @ ''_outputs'')
          ''Process outputs should be defined''),
     check (length (Process_Responsibilities process) = 0)
       (addError ''4.4'' (''process_'' @ Process_Name process @ ''_responsibilities'')
          ''Process responsibilities and authorities must be assigned''),
     check (length (Process_Criteria process) = 0)
       (addError ''4.4'' (''process_'' @ Process_Name process @ ''_criteria'')
          ''Process criteria and methods for monitoring must be determined''),
     check (length (Process_Risks process) = 0)
       (addInfo ''4.4'' (''process_'' @ Process_Name process @ ''_risks'')
          ''Consider identifying risks and opportunities for this process'')])"

definition validateQMSProcesses_missing :: ValidationResult where
  "validateQMSProcesses_missing =
     addError ''4.4'' ''processes''
       ''QMS processes must be established, implemented, maintained and continually improved''
       newResult"

definition validateQMSProcesses :: "Organization \<Rightarrow> ValidationResult" where
  "validateQMSProcesses org =
     (case Org_QMS org of
        None \<Rightarrow> validateQMSProcesses_missing
      | Some qms \<Rightarrow>
          if length (QMS_Processes qms) = 0 then validateQMSProcesses_missing
          else fold validateQMSProcesses_process (enumerate 0 (QMS_Processes qms)) newResult)"

subsection \<open>Clause 5.1: leadership\<close>

definition requiredCommitments :: "LeadershipCommitment list" where
  "requiredCommitments =
     [CommitmentQMSEffectiveness, CommitmentQualityPolicy, CommitmentQMSIntegration,
      CommitmentProcessApproach, CommitmentRiskThinking, CommitmentResources,
      CommitmentImportanceQMS, CommitmentConformity, CommitmentQMSResults,
      CommitmentEngagement, CommitmentImprovement, CommitmentCustomerFocus]"

text \<open>
  \<open>commitmentMap\<close> is a \<open>map[LeadershipCommitment]bool\<close>; reading a key that is
  absent gives \<open>false\<close>.
\<close>

definition commitmentMap :: "LeadershipCommitment list \<Rightarrow> (LeadershipCommitment \<rightharpoonup> bool)" where
  "commitmentMap commitments = fold (\<lambda>commitment m. m(commitment \<mapsto> True)) commitments Map.empty"

definition lookup_bool :: "('k \<rightharpoonup> bool) \<Rightarrow> 'k \<Rightarrow> bool" where
  "lookup_bool m k = (case m k of None \<Rightarrow> False | Some b \<Rightarrow> b)"

definition validateLeadership_required ::
  "(LeadershipCommitment \<rightharpoonup> bool) \<Rightarrow> LeadershipCommitment \<Rightarrow> ValidationResult \<Rightarrow> ValidationResult" where
  "validateLeadership_required m required =
     check (\<not> lookup_bool m required)
       (addError ''5.1'' ''leadership_commitment''
          (''Missing leadership commitment: '' @ required))"

definition validateLeadership :: "Organization \<Rightarrow> ValidationResult" where
  "validateLeadership org =
     (case Org_Leadership org of
        None \<Rightarrow> addError ''5.1'' ''leadership''
                  ''Top management must demonstrate leadership and commitment'' newResult
      | Some leadership \<Rightarrow> run [
          check (length (Leadership_TopManagement leadership) = 0)
            (addError ''5.1'' ''top_management'' ''Top management must be identified''),
          fold (validateLeadership_required (commitmentMap (Leadership_Commitment leadership)))
            requiredCommitments
        ] newResult)"

subsection \<open>Clause 5.2: quality policy\<close>

definition validateQualityPolicy_missing :: ValidationResult where
  "validateQualityPolicy_missing =
     addError ''5.2'' ''quality_policy'' ''Quality policy must be established and maintained''
       newResult"

definition validateQualityPolicy :: "Organization \<Rightarrow> ValidationResult" where
  "validateQualityPolicy org =
     (case Org_Leadership org of
        None \<Rightarrow> validateQualityPolicy_missing
      | Some leadership \<Rightarrow>
         (case Leadership_QualityPolicy leadership of
            None \<Rightarrow> validateQualityPolicy_missing
          | Some policy \<Rightarrow> run [
              check (Policy_Statement policy = '''')
                (addError ''5.2'' ''policy_statement''
                   ''Quality policy must include a statement of intent''),
              check (Policy_Objectives policy = '''')
                (addError ''5.2'' ''policy_objectives''
                   ''Quality policy must provide a framework for setting quality objectives''),
              check (Policy_Commitment policy = '''')
                (addError ''5.2'' ''policy_commitment''
                   ''Quality policy must include commitment to satisfy applicable requirements''),
              check (Policy_Improvement policy = '''')
                (addError ''5.2'' ''policy_improvement''
                   ''Quality policy must include commitment to continual improvement''),
              check (\<not> Policy_Communicated policy)
                (addError ''5.2'' ''policy_communication''
                   ''Quality policy must be communicated and understood within the organization''),
              check (\<not> Policy_Available policy)
                (addError ''5.2'' ''policy_availability''
                   ''Quality policy must be available to relevant interested parties'')
            ] newResult))"

subsection \<open>Clause 5.3: roles\<close>

definition validateRolesResponsibilities_role ::
  "nat \<times> OrganizationalRole \<Rightarrow> ValidationResult \<Rightarrow> ValidationResult" where
  "validateRolesResponsibilities_role = (\<lambda>(i, role). run [
     check (Role_Name role = '''')
       (addError ''5.3'' (''role_'' @ Itoa i @ ''_name'') ''Role must have a name''),
     check (length (Role_Responsibilities role) = 0)
       (addError ''5.3'' (''role_'' @ Role_Name role @ ''_responsibilities'')
          ''Role must have defined responsibilities''),
     check (length (Role_Authorities role) = 0)
       (addError ''5.3'' (''role_'' @ Role_Name role @ ''_authorities'')
          ''Role must have defined authorities''),
     check (Role_AssignedTo role = '''')
       (addError ''5.3'' (''role_'' @ Role_Name role @ ''_assignment'')
          ''Role must be assigned to a person'')])"

definition validateRolesResponsibilities_missing :: ValidationResult where
  "validateRolesResponsibilities_missing =
     addError ''5.3'' ''roles_responsibilities''
       ''Organizational roles, responsibilities and authorities must be assigned and communicated''
       newResult"

definition validateRolesResponsibilities :: "Organization \<Rightarrow> ValidationResult" where
  "validateRolesResponsibilities org =
     (case Org_Leadership org of
        None \<Rightarrow> validateRolesResponsibilities_missing
      | Some leadership \<Rightarrow>
          if length (Leadership_Roles leadership) = 0 then validateRolesResponsibilities_missing
          else fold validateRolesResponsibilities_role
                 (enumerate 0 (Leadership_Roles leadership)) newResult)"

subsection \<open>Clause 6.1: risks and opportunities\<close>

definition validateRisksOpportunities_risk :: "nat \<times> Risk \<Rightarrow> ValidationResult \<Rightarrow> ValidationResult" where
  "validateRisksOpportunities_risk = (\<lambda>(i, risk).
     check (length (Risk_Mitigation risk) = 0 \<and> Risk_Status risk \<noteq> RiskStatusMitigated)
       (addWarning ''6.1'' (''risk_'' @ Itoa i @ ''_mitigation'')
          ''Risk should have mitigation actions defined''))"

definition validateRisksOpportunities_opportunity ::
  "nat \<times> Opportunity \<Rightarrow> ValidationResult \<Rightarrow> ValidationResult" where
  "validateRisksOpportunities_opportunity = (\<lambda>(i, opportunity).
     check (length (Opportunity_Actions opportunity) = 0
            \<and> Opportunity_Status opportunity \<noteq> OpportunityStatusRealized)
       (addInfo ''6.1'' (''opportunity_'' @ Itoa i @ ''_actions'')
          ''Opportunity should have actions defined for realization''))"

text \<open>The two counters of the checker, after its loop over the processes.\<close>

definition totalRisks :: "QualityManagementSystem \<Rightarrow> nat" where
  "totalRisks qms =
     fold (\<lambda>process n. n + length (Process_Risks process)) (QMS_Processes qms)
       (length (QMS_Risks qms))"

definition totalOpportunities :: "QualityManagementSystem \<Rightarrow> nat" where
  "totalOpportunities qms =
     fold (\<lambda>process n. n + length (Process_Opportunities process)) (QMS_Processes qms)
       (length (QMS_Opportunities qms))"

definition validateRisksOpportunities :: "Organization \<Rightarrow> ValidationResult" where
  "validateRisksOpportunities org =
     (case Org_QMS org of
        None \<Rightarrow> addError ''6.1'' ''qms''
                  ''QMS must be defined to validate risks and opportunities'' newResult
      | Some qms \<Rightarrow> run [
          check (totalRisks qms = 0)
            (addWarning ''6.1'' ''risks''
               ''No risks identified - risk-based thinking should be applied to planning''),
          check (totalOpportunities qms = 0)
            (addInfo ''6.1'' ''opportunities''
               ''Consider identifying opportunities for improvement''),
          fold validateRisksOpportunities_risk (enumerate 0 (QMS_Risks qms)),
          fold validateRisksOpportunities_opportunity (enumerate 0 (QMS_Opportunities qms))
        ] newResult)"

subsection \<open>Clause 6.2: quality objectives\<close>

definition validateQualityObjectives_objective ::
  "nat \<times> QualityObjective \<Rightarrow> ValidationResult \<Rightarrow> ValidationResult" where
  "validateQualityObjectives_objective = (\<lambda>(i, objective). run [
     check (Objective_Name objective = '''')
       (addError ''6.2'' (''objective_'' @ Itoa i @ ''_name'')
          ''Quality objective must have a name''),
     check (\<not> Objective_Measurable objective)
       (addError ''6.2'' (''objective_'' @ Objective_Name objective @ ''_measurable'')
          ''Quality objectives must be measurable''),
     check (length (Objective_Targets objective) = 0)
       (addError ''6.2'' (''objective_'' @ Objective_Name objective @ ''_targets'')
          ''Quality objectives must have specific targets''),
     check (Objective_Responsible objective = '''')
       (addError ''6.2'' (''objective_'' @ Objective_Name objective @ ''_responsible'')
          ''Quality objectives must have responsible parties assigned''),
     check (IsZero (Timeline_TargetDate (Objective_Timeline objective)))
       (addError ''6.2'' (''objective_'' @ Objective_Name objective @ ''_timeline'')
          ''Quality objectives must have target dates'')])"

definition validateQualityObjectives_missing :: ValidationResult where
  "validateQualityObjectives_missing =
     addError ''6.2'' ''quality_objectives''
       ''Quality objectives must be established at relevant functions and levels'' newResult"

definition validateQualityObjectives :: "Organization \<Rightarrow> ValidationResult" where
  "validateQualityObjectives org =
     (case Org_QMS org of
        None \<Rightarrow> validateQualityObjectives_missing
      | Some qms \<Rightarrow>
          if length (QMS_Objectives qms) = 0 then validateQualityObjectives_missing
          else fold validateQualityObjectives_objective
                 (enumerate 0 (QMS_Objectives qms)) newResult)"

subsection \<open>The nine checkers merged, and the score\<close>

definition ValidateOrganization :: "Organization \<Rightarrow> ValidationResult" where
  "ValidateOrganization org =
     run [
       (\<lambda>result. merge result (validateContext org)),
       (\<lambda>result. merge result (validateInterestedParties org)),
       (\<lambda>result. merge result (validateQMSScope org)),
       (\<lambda>result. merge result (validateQMSProcesses org)),
       (\<lambda>result. merge result (validateLeadership org)),
       (\<lambda>result. merge result (validateQualityPolicy org)),
       (\<lambda>result. merge result (validateRolesResponsibilities org)),
       (\<lambda>result. merge result (validateRisksOpportunities org)),
       (\<lambda>result. merge result (validateQualityObjectives org))
     ] \<lparr>Result_Valid = True, Result_Errors = [], Result_Warnings = [], Result_Infos = []\<rparr>"

text \<open>
  The counters are Go \<open>int\<close>s; the lengths of slices are far from their bound, so
  they are integers here. The score is a \<open>float64\<close>, modelled by the real number the
  expression denotes.
\<close>

definition GetComplianceScore :: "Organization \<Rightarrow> real" where
  "GetComplianceScore org =
     (let result = ValidateOrganization org;
          totalChecks = int (length (Result_Errors result)) + int (length (Result_Warnings result))
                          + int (length (Result_Infos result))
      in if totalChecks = 0 then 100
         else
           let errorPoints = int (length (Result_Errors result)) * 3;
               warningPoints = int (length (Result_Warnings result)) * 1;
               infoPoints = int_of_float (real (length (Result_Infos result)) * 0.5);
               totalPenaltyPoints = errorPoints + warningPoints + infoPoints;
               maxPossiblePoints = totalChecks * 3
           in if maxPossiblePoints = 0 then 100
              else
                let score = 100 * (1 - real_of_int totalPenaltyPoints / real_of_int maxPossiblePoints)
                in if score < 0 then 0 else score)"

section \<open>Risk manager (risk_management.go)\<close>

type_synonym RiskType = string
type_synonym error = string

abbreviation RiskTypeOperational :: RiskType where
  "RiskTypeOperational \<equiv> ''operational''"

record RiskEntry =
  Entry_RiskID :: string
  Entry_Description :: string
  Entry_Type :: RiskType
  Entry_ProcessID :: string
  Entry_Probability :: RiskLevel
  Entry_Impact :: RiskLevel
  Entry_RiskScore :: int
  Entry_Priority :: string
  Entry_Status :: RiskStatus
  Entry_LastAssessed :: time

record RiskRegister =
  Register_OrganizationRisks :: "RiskEntry list"
  Register_ProcessRisks :: "string \<rightharpoonup> RiskEntry list"
  Register_CriticalRisks :: "RiskEntry list"
  Register_MitigationActions :: "Action list"
  Register_LastUpdated :: time

text \<open>
  The maps hold pointers to records; each record is reachable through its key only, so
  the maps hold the records themselves here. \<open>NewRiskManager\<close> allocates the register,
  and no operation replaces it.
\<close>

record RiskManager =
  RM_Risks :: "string \<rightharpoonup> Risk"
  RM_Opportunities :: "string \<rightharpoonup> Opportunity"
  RM_Register :: RiskRegister

definition NewRiskManager :: RiskManager where
  "NewRiskManager =
     \<lparr>RM_Risks = Map.empty, RM_Opportunities = Map.empty,
      RM_Register = \<lparr>Register_OrganizationRisks = [], Register_ProcessRisks = Map.empty,
                     Register_CriticalRisks = [], Register_MitigationActions = [],
                     Register_LastUpdated = 0\<rparr>\<rparr>"

text \<open>
  What the Go runtime and library decide during one call: the reading of the clock
  (\<open>time.Now()\<close>; the readings within one call are taken as one instant), the order in
  which \<open>range\<close> yields the keys of \<open>rm.Risks\<close> (unspecified by the language), and
  the result of \<open>sort.Slice\<close> under the comparison of \<open>updateRegister\<close> (the library
  promises a sorted rearrangement and no stability).
\<close>

record Runtime =
  now :: time
  rangeRisks :: "string list"
  sortSlice :: "RiskEntry list \<Rightarrow> RiskEntry list"

definition range_of :: "('k \<rightharpoonup> 'v) \<Rightarrow> 'k list \<Rightarrow> bool" where
  "range_of m ks = (distinct ks \<and> set ks = dom m)"

text \<open>
  The comparison handed to \<open>sort.Slice\<close>, and what the library promises for it: the
  result is a rearrangement of the slice in which no later element is less than an
  earlier one.
\<close>

definition less_entry :: "RiskEntry \<Rightarrow> RiskEntry \<Rightarrow> bool" where
  "less_entry a b = (Entry_RiskScore a > Entry_RiskScore b)"

definition sorts_slice :: "(RiskEntry list \<Rightarrow> RiskEntry list) \<Rightarrow> bool" where
  "sorts_slice srt =
     (\<forall>xs. mset (srt xs) = mset xs \<and> sorted_wrt (\<lambda>a b. \<not> less_entry b a) (srt xs))"

text \<open>
  For slices of at most twelve elements \<open>sort.Slice\<close> is this insertion sort: each
  element in turn moves left while it is less than its left neighbour. The sorted
  prefix is held in reverse (its last element first) while the loop runs.
\<close>

fun insertionSort_insert :: "RiskEntry \<Rightarrow> RiskEntry list \<Rightarrow> RiskEntry list" where
  "insertionSort_insert x [] = [x]"
| "insertionSort_insert x (y # ys) =
     (if less_entry x y then y # insertionSort_insert x ys else x # y # ys)"

definition insertionSort :: "RiskEntry list \<Rightarrow> RiskEntry list" where
  "insertionSort xs = rev (fold insertionSort_insert xs [])"

fun getRiskScore :: "RiskLevel \<Rightarrow> int" where
  "getRiskScore level =
     (if level = RiskLevelVeryHigh then 4
      else if level = RiskLevelHigh then 3
      else if level = RiskLevelMedium then 2
      else if level = RiskLevelLow then 1
      else if level = RiskLevelVeryLow then 1
      else 1)"

definition calculatePriority :: "RiskLevel \<Rightarrow> RiskLevel \<Rightarrow> Priority" where
  "calculatePriority likelihood impact =
     (let likelihoodScore = getRiskScore likelihood;
          impactScore = getRiskScore impact;
          totalScore = likelihoodScore * impactScore
      in if totalScore \<ge> 16 then PriorityCritical
         else if totalScore \<ge> 9 then PriorityHigh
         else if totalScore \<ge> 4 then PriorityMedium
         else PriorityLow)"

definition mkRiskEntry :: "time \<Rightarrow> string \<Rightarrow> Risk \<Rightarrow> RiskEntry" where
  "mkRiskEntry t riskID risk =
     \<lparr>Entry_RiskID = riskID,
      Entry_Description = Risk_Description risk,
      Entry_Type = RiskTypeOperational,
      Entry_ProcessID = '''',
      Entry_Probability = Risk_Likelihood risk,
      Entry_Impact = Risk_Impact risk,
      Entry_RiskScore = getRiskScore (Risk_Likelihood risk) * getRiskScore (Risk_Impact risk),
      Entry_Priority = Risk_Priority risk,
      Entry_Status = Risk_Status risk,
      Entry_LastAssessed = t\<rparr>"

text \<open>\<open>for k, v := range m\<close> with the keys yielded in the order \<open>ks\<close>.\<close>

definition range_map :: "'k list \<Rightarrow> ('k \<rightharpoonup> 'v) \<Rightarrow> ('k \<times> 'v) list" where
  "range_map ks m = concat (map (\<lambda>k. case m k of None \<Rightarrow> [] | Some v \<Rightarrow> [(k, v)]) ks)"

definition updateRegister :: "Runtime \<Rightarrow> RiskManager \<Rightarrow> RiskManager" where
  "updateRegister rt rm =
     (let orgRisks = map (\<lambda>(riskID, risk). mkRiskEntry (now rt) riskID risk)
                       (range_map (rangeRisks rt) (RM_Risks rm));
          orgRisks = sortSlice rt orgRisks
      in rm\<lparr>RM_Register := (RM_Register rm)\<lparr>
            Register_LastUpdated := now rt,
            Register_OrganizationRisks := orgRisks,
            Register_CriticalRisks :=
              (if length orgRisks > 10 then take 10 orgRisks else orgRisks)\<rparr>\<rparr>)"

text \<open>
  An operation returns its error (\<open>None\<close> for Go's nil) and the manager as the call
  leaves it. The record passed by pointer to \<open>IdentifyRisk\<close> is the one stored.
\<close>

definition IdentifyRisk :: "Runtime \<Rightarrow> Risk \<Rightarrow> RiskManager \<Rightarrow> error option \<times> RiskManager" where
  "IdentifyRisk rt risk rm =
     (if Risk_ID risk = '''' then (Some ''risk must have an ID'', rm)
      else if Risk_Description risk = '''' then (Some ''risk must have a description'', rm)
      else
        let risk = risk\<lparr>Risk_Created := now rt, Risk_Status := RiskStatusIdentified\<rparr>;
            rm = rm\<lparr>RM_Risks := (RM_Risks rm)(Risk_ID risk \<mapsto> risk)\<rparr>
        in (None, updateRegister rt rm))"

definition AssessRisk ::
  "Runtime \<Rightarrow> string \<Rightarrow> RiskLevel \<Rightarrow> RiskLevel \<Rightarrow> RiskManager \<Rightarrow> error option \<times> RiskManager" where
  "AssessRisk rt riskID likelihood impact rm =
     (case RM_Risks rm riskID of
        None \<Rightarrow> (Some (''risk with ID '' @ riskID @ '' not found''), rm)
      | Some risk \<Rightarrow>
          let risk = risk\<lparr>Risk_Likelihood := likelihood,
                          Risk_Impact := impact,
                          Risk_Priority := calculatePriority likelihood impact,
                          Risk_Status := RiskStatusAssessed\<rparr>;
              rm = rm\<lparr>RM_Risks := (RM_Risks rm)(riskID \<mapsto> risk)\<rparr>
          in (None, updateRegister rt rm))"

definition MitigateRisk ::
  "Runtime \<Rightarrow> string \<Rightarrow> Action list \<Rightarrow> RiskManager \<Rightarrow> error option \<times> RiskManager" where
  "MitigateRisk rt riskID actions rm =
     (case RM_Risks rm riskID of
        None \<Rightarrow> (Some (''risk with ID '' @ riskID @ '' not found''), rm)
      | Some risk \<Rightarrow>
          let risk = risk\<lparr>Risk_Mitigation := Risk_Mitigation risk @ actions,
                          Risk_Status := RiskStatusMitigated\<rparr>;
              rm = rm\<lparr>RM_Risks := (RM_Risks rm)(riskID \<mapsto> risk)\<rparr>
          in (None, updateRegister rt rm))"

definition MonitorRisk ::
  "Runtime \<Rightarrow> string \<Rightarrow> RiskStatus \<Rightarrow> RiskManager \<Rightarrow> error option \<times> RiskManager" where
  "MonitorRisk rt riskID status rm =
     (case RM_Risks rm riskID of
        None \<Rightarrow> (Some (''risk with ID '' @ riskID @ '' not found''), rm)
      | Some risk \<Rightarrow>
          let risk = risk\<lparr>Risk_Status := status\<rparr>;
              rm = rm\<lparr>RM_Risks := (RM_Risks rm)(riskID \<mapsto> risk)\<rparr>
          in (None, updateRegister rt rm))"

definition IdentifyOpportunity ::
  "Runtime \<Rightarrow> Opportunity \<Rightarrow> RiskManager \<Rightarrow> error option \<times> RiskManager" where
  "IdentifyOpportunity rt opportunity rm =
     (if Opportunity_ID opportunity = '''' then (Some ''opportunity must have an ID'', rm)
      else if Opportunity_Description opportunity = ''''
      then (Some ''opportunity must have a description'', rm)
      else
        let opportunity = opportunity\<lparr>Opportunity_Created := now rt,
                                        Opportunity_Status := OpportunityStatusIdentified\<rparr>;
            rm = rm\<lparr>RM_Opportunities :=
                      (RM_Opportunities rm)(Opportunity_ID opportunity \<mapsto> opportunity)\<rparr>
        in (None, updateRegister rt rm))"

definition RealizeOpportunity ::
  "Runtime \<Rightarrow> string \<Rightarrow> Action list \<Rightarrow> RiskManager \<Rightarrow> error option \<times> RiskManager" where
  "RealizeOpportunity rt opportunityID actions rm =
     (case RM_Opportunities rm opportunityID of
        None \<Rightarrow> (Some (''opportunity with ID '' @ opportunityID @ '' not found''), rm)
      | Some opportunity \<Rightarrow>
          let opportunity = opportunity\<lparr>Opportunity_Actions := actions,
                                          Opportunity_Status := OpportunityStatusPlanned\<rparr>;
              rm = rm\<lparr>RM_Opportunities :=
                        (RM_Opportunities rm)(opportunityID \<mapsto> opportunity)\<rparr>
          in (None, updateRegister rt rm))"

text \<open>
  \<open>GetCriticalRisks\<close> ranges over \<open>rm.Risks\<close>, the keys coming in the order \<open>ks\<close>.
  \<open>RiskLevel\<close> is a string type, so its \<open>>=\<close> is the comparison of strings.
\<close>

definition GetCriticalRisks :: "string list \<Rightarrow> RiskManager \<Rightarrow> Risk list" where
  "GetCriticalRisks ks rm =
     fold (\<lambda>(riskID, risk) critical.
            if Risk_Impact risk = RiskLevelVeryHigh
               \<and> string_ge (Risk_Likelihood risk) RiskLevelHigh
            then critical @ [risk] else critical)
       (range_map ks (RM_Risks rm)) []"

section \<open>Quality objectives manager (risk_management.go)\<close>

record ObjectiveProgress =
  Progress_ObjectiveID :: string
  Progress_Date :: time
  Progress_Progress :: real
  Progress_Status :: string
  Progress_Comments :: string

record ObjectiveAchievement =
  Achievement_ObjectiveID :: string
  Achievement_AchievedDate :: time
  Achievement_Evidence :: string
  Achievement_Celebrated :: bool

record ObjectiveTrend =
  Trend_ObjectiveID :: string
  Trend_Period :: string
  Trend_Trend :: string
  Trend_Data :: "real list"

record ObjectivesTracker =
  Tracker_ProgressReports :: "ObjectiveProgress list"
  Tracker_Achievements :: "ObjectiveAchievement list"
  Tracker_Trends :: "ObjectiveTrend list"

record QualityObjectivesManager =
  QOM_Objectives :: "string \<rightharpoonup> QualityObjective"
  QOM_Tracker :: ObjectivesTracker

definition NewQualityObjectivesManager :: QualityObjectivesManager where
  "NewQualityObjectivesManager =
     \<lparr>QOM_Objectives = Map.empty,
      QOM_Tracker = \<lparr>Tracker_ProgressReports = [], Tracker_Achievements = [],
                     Tracker_Trends = []\<rparr>\<rparr>"

definition CreateObjective ::
  "time \<Rightarrow> QualityObjective \<Rightarrow> QualityObjectivesManager
     \<Rightarrow> error option \<times> QualityObjectivesManager" where
  "CreateObjective t objective qom =
     (if Objective_ID objective = '''' then (Some ''objective must have an ID'', qom)
      else if Objective_Name objective = '''' then (Some ''objective must have a name'', qom)
      else if \<not> Objective_Measurable objective
      then (Some ''quality objectives must be measurable'', qom)
      else if length (Objective_Targets objective) = 0
      then (Some ''objective must have targets'', qom)
      else if Objective_Responsible objective = ''''
      then (Some ''objective must have a responsible party'', qom)
      else
        let objective = objective\<lparr>Objective_Created := t,
                                    Objective_Status := ObjectiveStatusPlanned\<rparr>
        in (None, qom\<lparr>QOM_Objectives :=
                         (QOM_Objectives qom)(Objective_ID objective \<mapsto> objective)\<rparr>))"

text \<open>
  The progress is a \<open>float64\<close>, modelled by the real number it denotes. (A NaN fails
  both comparisons, as a value that is not positive does.)
\<close>

definition UpdateObjectiveProgress ::
  "string \<Rightarrow> ObjectiveProgress \<Rightarrow> QualityObjectivesManager
     \<Rightarrow> error option \<times> QualityObjectivesManager" where
  "UpdateObjectiveProgress objectiveID progress qom =
     (case QOM_Objectives qom objectiveID of
        None \<Rightarrow> (Some (''objective with ID '' @ objectiveID @ '' not found''), qom)
      | Some objective \<Rightarrow>
          let progress = progress\<lparr>Progress_ObjectiveID := objectiveID\<rparr>;
              tracker = (QOM_Tracker qom)\<lparr>Tracker_ProgressReports :=
                           Tracker_ProgressReports (QOM_Tracker qom) @ [progress]\<rparr>
          in if Progress_Progress progress \<ge> 100 then
               let objective = objective\<lparr>Objective_Status := ObjectiveStatusAchieved\<rparr>;
                   achievement = \<lparr>Achievement_ObjectiveID = objectiveID,
                                  Achievement_AchievedDate = Progress_Date progress,
                                  Achievement_Evidence = Progress_Comments progress,
                                  Achievement_Celebrated = False\<rparr>;
                   tracker = tracker\<lparr>Tracker_Achievements :=
                                Tracker_Achievements tracker @ [achievement]\<rparr>
               in (None, qom\<lparr>QOM_Objectives := (QOM_Objectives qom)(objectiveID \<mapsto> objective),
                               QOM_Tracker := tracker\<rparr>)
             else if Progress_Progress progress > 0 then
               let objective = objective\<lparr>Objective_Status := ObjectiveStatusInProgress\<rparr>
               in (None, qom\<lparr>QOM_Objectives := (QOM_Objectives qom)(objectiveID \<mapsto> objective),
                               QOM_Tracker := tracker\<rparr>)
             else (None, qom\<lparr>QOM_Tracker := tracker\<rparr>))"

section \<open>Audit manager (audit.go)\<close>

type_synonym AuditType = string
type_synonym AuditStatus = string
type_synonym FindingSeverity = string
type_synonym FindingCategory = string
type_synonym FindingStatus = string
type_synonym ReviewStatus = string
type_synonym ChangeType = string

abbreviation AuditStatusPlanned :: AuditStatus where
  "AuditStatusPlanned \<equiv> ''planned''"
abbreviation AuditStatusInProgress :: AuditStatus where
  "AuditStatusInProgress \<equiv> ''in_progress''"
abbreviation AuditStatusCompleted :: AuditStatus where
  "AuditStatusCompleted \<equiv> ''completed''"
abbreviation AuditStatusReported :: AuditStatus where
  "AuditStatusReported \<equiv> ''reported''"
abbreviation AuditStatusClosed :: AuditStatus where
  "AuditStatusClosed \<equiv> ''closed''"

abbreviation ReviewStatusPending :: ReviewStatus where
  "ReviewStatusPending \<equiv> ''pending''"
abbreviation ReviewStatusCompleted :: ReviewStatus where
  "ReviewStatusCompleted \<equiv> ''completed''"

record AuditScope =
  AuditScope_Description :: string
  AuditScope_Processes :: "string list"
  AuditScope_Locations :: "string list"
  AuditScope_Departments :: "string list"
  AuditScope_Clauses :: "string list"
  AuditScope_Exclusions :: "string list"
  AuditScope_Objectives :: "string list"

record AuditParticipant =
  Participant_ID :: string
  Participant_Name :: string
  Participant_Role :: string
  Participant_Competence :: "string list"

record CorrectiveAction =
  Corrective_ID :: string
  Corrective_Description :: string
  Corrective_RootCause :: string
  Corrective_Actions :: "string list"
  Corrective_Responsible :: string
  Corrective_DueDate :: time
  Corrective_Status :: ActionStatus
  Corrective_Verification :: string

record AuditFinding =
  Finding_ID :: string
  Finding_Clause :: string
  Finding_Description :: string
  Finding_Evidence :: string
  Finding_Severity :: FindingSeverity
  Finding_Category :: FindingCategory
  Finding_RootCause :: string
  Finding_Process :: string
  Finding_Responsible :: string
  Finding_DueDate :: time
  Finding_Status :: FindingStatus
  Finding_CorrectiveActions :: "CorrectiveAction list"
  Finding_Created :: time

record AuditRecommendation =
  Recommendation_ID :: string
  Recommendation_Description :: string
  Recommendation_Priority :: Priority
  Recommendation_Category :: string
  Recommendation_Responsible :: string
  Recommendation_Timeline :: time
  Recommendation_Status :: ActionStatus

record AuditReport =
  Report_ID :: string
  Report_Summary :: string
  Report_Conclusions :: string
  Report_Effectiveness :: string
  Report_Recommendations :: "AuditRecommendation list"
  Report_IssuedDate :: time
  Report_ReviewedBy :: string
  Report_ApprovedBy :: string

record AuditRisk =
  AuditRisk_Level :: RiskLevel
  AuditRisk_Description :: string
  AuditRisk_Mitigations :: "string list"

record Audit =
  Audit_ID :: string
  Audit_Title :: string
  Audit_Type :: AuditType
  Audit_Scope :: AuditScope
  Audit_PlannedStartDate :: time
  Audit_PlannedEndDate :: time
  Audit_ActualStartDate :: "time option"
  Audit_ActualEndDate :: "time option"
  Audit_Auditors :: "AuditParticipant list"
  Audit_Auditees :: "AuditParticipant list"
  Audit_Findings :: "AuditFinding list"
  Audit_Recommendations :: "AuditRecommendation list"
  Audit_Report :: "AuditReport option"
  Audit_Status :: AuditStatus
  Audit_RiskAssessment :: AuditRisk
  Audit_Created :: time
  Audit_Modified :: time

record ReviewAttendee =
  Attendee_ID :: string
  Attendee_Name :: string
  Attendee_Role :: string
  Attendee_Present :: bool

record ImprovementOpportunity =
  Improvement_ID :: string
  Improvement_Description :: string
  Improvement_Priority :: Priority
  Improvement_Category :: string
  Improvement_Benefits :: "string list"

record QMSChange =
  Change_ID :: string
  Change_Description :: string
  Change_Type :: ChangeType
  Change_Impact :: Impact
  Change_Timeline :: time

record ResourceNeed =
  Need_ResourceType :: string
  Need_Description :: string
  Need_Priority :: Priority
  Need_Timeline :: time

record ActionItem =
  Item_ID :: string
  Item_Description :: string
  Item_Responsible :: string
  Item_DueDate :: time
  Item_Priority :: Priority
  Item_Status :: ActionStatus

record ManagementReviewOutputs =
  Outputs_ImprovementOpportunities :: "ImprovementOpportunity list"
  Outputs_QMSChanges :: "QMSChange list"
  Outputs_ResourceNeeds :: "ResourceNeed list"
  Outputs_ActionItems :: "ActionItem list"
  Outputs_NextReviewDate :: time

text \<open>
  Of a management review, the fields \<open>Inputs\<close> (sixteen reports) and \<open>FollowUp\<close>
  (a pointer to a further review) are left out: no operation reads or writes them.
\<close>

record ManagementReview =
  Review_ID :: string
  Review_Title :: string
  Review_Date :: time
  Review_Attendees :: "ReviewAttendee list"
  Review_Outputs :: ManagementReviewOutputs
  Review_Status :: ReviewStatus
  Review_Created :: time

record AuditManager =
  AM_Audits :: "string \<rightharpoonup> Audit"
  AM_ManagementReviews :: "string \<rightharpoonup> ManagementReview"

definition NewAuditManager :: AuditManager where
  "NewAuditManager = \<lparr>AM_Audits = Map.empty, AM_ManagementReviews = Map.empty\<rparr>"

definition CreateAudit :: "time \<Rightarrow> Audit \<Rightarrow> AuditManager \<Rightarrow> error option \<times> AuditManager" where
  "CreateAudit t audit am =
     (if Audit_ID audit = '''' then (Some ''audit must have an ID'', am)
      else if Audit_Title audit = '''' then (Some ''audit must have a title'', am)
      else if AuditScope_Description (Audit_Scope audit) = ''''
      then (Some ''audit must have a defined scope'', am)
      else
        let audit = audit\<lparr>Audit_Created := t, Audit_Modified := t,
                            Audit_Status := AuditStatusPlanned\<rparr>
        in (None, am\<lparr>AM_Audits := (AM_Audits am)(Audit_ID audit \<mapsto> audit)\<rparr>))"

definition StartAudit :: "time \<Rightarrow> string \<Rightarrow> time \<Rightarrow> AuditManager \<Rightarrow> error option \<times> AuditManager" where
  "StartAudit t auditID startDate am =
     (case AM_Audits am auditID of
        None \<Rightarrow> (Some (''audit with ID '' @ auditID @ '' not found''), am)
      | Some audit \<Rightarrow>
          if Audit_Status audit \<noteq> AuditStatusPlanned
          then (Some ''audit is not in planned status'', am)
          else
            let audit = audit\<lparr>Audit_ActualStartDate := Some startDate,
                                Audit_Status := AuditStatusInProgress,
                                Audit_Modified := t\<rparr>
            in (None, am\<lparr>AM_Audits := (AM_Audits am)(auditID \<mapsto> audit)\<rparr>))"

definition AddFinding ::
  "time \<Rightarrow> string \<Rightarrow> AuditFinding \<Rightarrow> AuditManager \<Rightarrow> error option \<times> AuditManager" where
  "AddFinding t auditID finding am =
     (case AM_Audits am auditID of
        None \<Rightarrow> (Some (''audit with ID '' @ auditID @ '' not found''), am)
      | Some audit \<Rightarrow>
          let finding = finding\<lparr>Finding_Created := t\<rparr>;
              audit = audit\<lparr>Audit_Findings := Audit_Findings audit @ [finding],
                              Audit_Modified := t\<rparr>
          in (None, am\<lparr>AM_Audits := (AM_Audits am)(auditID \<mapsto> audit)\<rparr>))"

definition CompleteAudit ::
  "time \<Rightarrow> string \<Rightarrow> time \<Rightarrow> AuditReport option \<Rightarrow> AuditManager
     \<Rightarrow> error option \<times> AuditManager" where
  "CompleteAudit t auditID endDate report am =
     (case AM_Audits am auditID of
        None \<Rightarrow> (Some (''audit with ID '' @ auditID @ '' not found''), am)
      | Some audit \<Rightarrow>
          let audit = audit\<lparr>Audit_ActualEndDate := Some endDate,
                              Audit_Report := report,
                              Audit_Status := AuditStatusCompleted,
                              Audit_Modified := t\<rparr>
          in (None, am\<lparr>AM_Audits := (AM_Audits am)(auditID \<mapsto> audit)\<rparr>))"

definition CreateManagementReview ::
  "time \<Rightarrow> ManagementReview \<Rightarrow> AuditManager \<Rightarrow> error option \<times> AuditManager" where
  "CreateManagementReview t review am =
     (if Review_ID review = '''' then (Some ''management review must have an ID'', am)
      else if Review_Title review = '''' then (Some ''management review must have a title'', am)
      else
        let review = review\<lparr>Review_Created := t, Review_Status := ReviewStatusPending\<rparr>
        in (None, am\<lparr>AM_ManagementReviews :=
                        (AM_ManagementReviews am)(Review_ID review \<mapsto> review)\<rparr>))"

definition CompleteManagementReview ::
  "string \<Rightarrow> ManagementReviewOutputs \<Rightarrow> AuditManager \<Rightarrow> error option \<times> AuditManager" where
  "CompleteManagementReview reviewID outputs am =
     (case AM_ManagementReviews am reviewID of
        None \<Rightarrow> (Some (''management review with ID '' @ reviewID @ '' not found''), am)
      | Some review \<Rightarrow>
          let review = review\<lparr>Review_Outputs := outputs, Review_Status := ReviewStatusCompleted\<rparr>
          in (None, am\<lparr>AM_ManagementReviews :=
                          (AM_ManagementReviews am)(reviewID \<mapsto> review)\<rparr>))"

section \<open>Operations as data\<close>

text \<open>
  To speak about every operation of a manager at once, the calls are collected in
  datatypes, one constructor for each exported operation that changes a manager, and
  \<open>apply_*\<close> dispatches a call to the operation.
\<close>

datatype RiskOp =
    OpIdentifyRisk Risk
  | OpAssessRisk string RiskLevel RiskLevel
  | OpMitigateRisk string "Action list"
  | OpMonitorRisk string RiskStatus
  | OpIdentifyOpportunity Opportunity
  | OpRealizeOpportunity string "Action list"

datatype ObjectiveOp =
    OpCreateObjective QualityObjective
  | OpUpdateObjectiveProgress string ObjectiveProgress

datatype AuditOp =
    OpCreateAudit Audit
  | OpStartAudit string time
  | OpAddFinding string AuditFinding
  | OpCompleteAudit string time "AuditReport option"
  | OpCreateManagementReview ManagementReview
  | OpCompleteManagementReview string ManagementReviewOutputs

datatype ManagerOp = OnRisks RiskOp | OnObjectives ObjectiveOp | OnAudits AuditOp

fun apply_RiskOp :: "Runtime \<Rightarrow> RiskOp \<Rightarrow> RiskManager \<Rightarrow> error option \<times> RiskManager" where
  "apply_RiskOp rt (OpIdentifyRisk risk) rm = IdentifyRisk rt risk rm"
| "apply_RiskOp rt (OpAssessRisk riskID likelihood impact) rm =
     AssessRisk rt riskID likelihood impact rm"
| "apply_RiskOp rt (OpMitigateRisk riskID actions) rm = MitigateRisk rt riskID actions rm"
| "apply_RiskOp rt (OpMonitorRisk riskID status) rm = MonitorRisk rt riskID status rm"
| "apply_RiskOp rt (OpIdentifyOpportunity opportunity) rm = IdentifyOpportunity rt opportunity rm"
| "apply_RiskOp rt (OpRealizeOpportunity opportunityID actions) rm =
     RealizeOpportunity rt opportunityID actions rm"

fun apply_ObjectiveOp ::
  "time \<Rightarrow> ObjectiveOp \<Rightarrow> QualityObjectivesManager \<Rightarrow> error option \<times> QualityObjectivesManager" where
  "apply_ObjectiveOp t (OpCreateObjective objective) qom = CreateObjective t objective qom"
| "apply_ObjectiveOp t (OpUpdateObjectiveProgress objectiveID progress) qom =
     UpdateObjectiveProgress objectiveID progress qom"

fun apply_AuditOp :: "time \<Rightarrow> AuditOp \<Rightarrow> AuditManager \<Rightarrow> error option \<times> AuditManager" where
  "apply_AuditOp t (OpCreateAudit audit) am = CreateAudit t audit am"
| "apply_AuditOp t (OpStartAudit auditID startDate) am = StartAudit t auditID startDate am"
| "apply_AuditOp t (OpAddFinding auditID finding) am = AddFinding t auditID finding am"
| "apply_AuditOp t (OpCompleteAudit auditID endDate report) am =
     CompleteAudit t auditID endDate report am"
| "apply_AuditOp t (OpCreateManagementReview review) am = CreateManagementReview t review am"
| "apply_AuditOp t (OpCompleteManagementReview reviewID outputs) am =
     CompleteManagementReview reviewID outputs am"

record Managers =
  riskManager :: RiskManager
  objectivesManager :: QualityObjectivesManager
  auditManager :: AuditManager

fun apply_ManagerOp :: "Runtime \<Rightarrow> ManagerOp \<Rightarrow> Managers \<Rightarrow> error option \<times> Managers" where
  "apply_ManagerOp rt (OnRisks op) s =
     (case apply_RiskOp rt op (riskManager s) of (err, rm) \<Rightarrow> (err, s\<lparr>riskManager := rm\<rparr>))"
| "apply_ManagerOp rt (OnObjectives op) s =
     (case apply_ObjectiveOp (now rt) op (objectivesManager s) of
        (err, qom) \<Rightarrow> (err, s\<lparr>objectivesManager := qom\<rparr>))"
| "apply_ManagerOp rt (OnAudits op) s =
     (case apply_AuditOp (now rt) op (auditManager s) of
        (err, am) \<Rightarrow> (err, s\<lparr>auditManager := am\<rparr>))"

text \<open>
  The preconditions as the specification names them: a required field of the record
  handed in is missing, the identifier referred to is not known to the manager, or the
  audit to start is not in planned status.
\<close>

fun precondition_unmet :: "ManagerOp \<Rightarrow> Managers \<Rightarrow> bool" where
  "precondition_unmet (OnRisks (OpIdentifyRisk risk)) s =
     (Risk_ID risk = '''' \<or> Risk_Description risk = '''')"
| "precondition_unmet (OnRisks (OpAssessRisk riskID likelihood impact)) s =
     (riskID \<notin> dom (RM_Risks (riskManager s)))"
| "precondition_unmet (OnRisks (OpMitigateRisk riskID actions)) s =
     (riskID \<notin> dom (RM_Risks (riskManager s)))"
| "precondition_unmet (OnRisks (OpMonitorRisk riskID status)) s =
     (riskID \<notin> dom (RM_Risks (riskManager s)))"
| "precondition_unmet (OnRisks (OpIdentifyOpportunity opportunity)) s =
     (Opportunity_ID opportunity = '''' \<or> Opportunity_Description opportunity = '''')"
| "precondition_unmet (OnRisks (OpRealizeOpportunity opportunityID actions)) s =
     (opportunityID \<notin> dom (RM_Opportunities (riskManager s)))"
| "precondition_unmet (OnObjectives (OpCreateObjective objective)) s =
     (Objective_ID objective = '''' \<or> Objective_Name objective = ''''
      \<or> Objective_Targets objective = [] \<or> Objective_Responsible objective = ''''
      \<or> \<not> Objective_Measurable objective)"
| "precondition_unmet (OnObjectives (OpUpdateObjectiveProgress objectiveID progress)) s =
     (objectiveID \<notin> dom (QOM_Objectives (objectivesManager s)))"
| "precondition_unmet (OnAudits (OpCreateAudit audit)) s =
     (Audit_ID audit = '''' \<or> Audit_Title audit = ''''
      \<or> AuditScope_Description (Audit_Scope audit) = '''')"
| "precondition_unmet (OnAudits (OpStartAudit auditID startDate)) s =
     (case AM_Audits (auditManager s) auditID of
        None \<Rightarrow> True
      | Some audit \<Rightarrow> Audit_Status audit \<noteq> AuditStatusPlanned)"
| "precondition_unmet (OnAudits (OpAddFinding auditID finding)) s =
     (auditID \<notin> dom (AM_Audits (auditManager s)))"
| "precondition_unmet (OnAudits (OpCompleteAudit auditID endDate report)) s =
     (auditID \<notin> dom (AM_Audits (auditManager s)))"
| "precondition_unmet (OnAudits (OpCreateManagementReview review)) s =
     (Review_ID review = '''' \<or> Review_Title review = '''')"
| "precondition_unmet (OnAudits (OpCompleteManagementReview reviewID outputs)) s =
     (reviewID \<notin> dom (AM_ManagementReviews (auditManager s)))"

section \<open>The specification's tables and formulas\<close>

definition RiskLevels :: "RiskLevel list" where
  "RiskLevels =
     [RiskLevelVeryLow, RiskLevelLow, RiskLevelMedium, RiskLevelHigh, RiskLevelVeryHigh]"

text \<open>The specification's weights of the five levels: 1, 1, 2, 3, 4.\<close>

definition spec_weight :: "RiskLevel \<Rightarrow> int" where
  "spec_weight level =
     (case map_of [(RiskLevelVeryLow, 1), (RiskLevelLow, 1), (RiskLevelMedium, 2),
                   (RiskLevelHigh, 3), (RiskLevelVeryHigh, 4)] level of
        None \<Rightarrow> 0
      | Some w \<Rightarrow> w)"

text \<open>The specification's ordinal reading of "likelihood high or very high".\<close>

definition spec_likelihood_at_least_high :: "RiskLevel \<Rightarrow> bool" where
  "spec_likelihood_at_least_high level = (level = RiskLevelHigh \<or> level = RiskLevelVeryHigh)"

text \<open>
  The specification's score: the penalty counts the info findings with one rounding,
  \<open>round (0.5 * I)\<close>, and the score is floored at 0.
\<close>

definition spec_penalty :: "nat \<Rightarrow> nat \<Rightarrow> nat \<Rightarrow> int" where
  "spec_penalty E W I = 3 * int E + 1 * int W + round (0.5 * real I)"

definition spec_score :: "nat \<Rightarrow> nat \<Rightarrow> nat \<Rightarrow> real" where
  "spec_score E W I =
     max 0 (100 * (1 - real_of_int (spec_penalty E W I) / real (3 * (E + W + I))))"

text \<open>The counts of error, warning and info findings of an organization.\<close>

definition countErrors :: "Organization \<Rightarrow> nat" where
  "countErrors org = length (Result_Errors (ValidateOrganization org))"

definition countWarnings :: "Organization \<Rightarrow> nat" where
  "countWarnings org = length (Result_Warnings (ValidateOrganization org))"

definition countInfos :: "Organization \<Rightarrow> nat" where
  "countInfos org = length (Result_Infos (ValidateOrganization org))"

text \<open>
  The specification's status of an objective, from the latest reported percentage
  alone.
\<close>

definition spec_status :: "real \<Rightarrow> ObjectiveStatus" where
  "spec_status p =
     (if p \<ge> 100 then ObjectiveStatusAchieved
      else if p > 0 then ObjectiveStatusInProgress
      else ObjectiveStatusPlanned)"

text \<open>A sequence of progress reports on one objective, each call on the state the last left.\<close>

definition reportAll ::
  "string \<Rightarrow> ObjectiveProgress list \<Rightarrow> QualityObjectivesManager \<Rightarrow> QualityObjectivesManager" where
  "reportAll objectiveID reports qom =
     fold (\<lambda>progress qom. snd (UpdateObjectiveProgress objectiveID progress qom)) reports qom"

definition statusOf :: "QualityObjectivesManager \<Rightarrow> string \<Rightarrow> ObjectiveStatus option" where
  "statusOf qom objectiveID = map_option Objective_Status (QOM_Objectives qom objectiveID)"

text \<open>The findings of the clause 5.1 and clause 6.1 checkers that the specification names.\<close>

definition missingCommitment :: "LeadershipCommitment \<Rightarrow> ValidationError" where
  "missingCommitment c =
     mkFinding ''error'' ''5.1'' ''leadership_commitment''
       (''Missing leadership commitment: '' @ c)"

definition noRisksWarning :: ValidationError where
  "noRisksWarning =
     mkFinding ''warning'' ''6.1'' ''risks''
       ''No risks identified - risk-based thinking should be applied to planning''"

definition noOpportunitiesInfo :: ValidationError where
  "noOpportunitiesInfo =
     mkFinding ''info'' ''6.1'' ''opportunities''
       ''Consider identifying opportunities for improvement''"

definition unmitigated :: "Risk \<Rightarrow> bool" where
  "unmitigated risk = (Risk_Mitigation risk = [] \<and> Risk_Status risk \<noteq> RiskStatusMitigated)"

definition mitigationWarning :: "nat \<Rightarrow> ValidationError" where
  "mitigationWarning i =
     mkFinding ''warning'' ''6.1'' (''risk_'' @ Itoa i @ ''_mitigation'')
       ''Risk should have mitigation actions defined''"

definition unplanned :: "Opportunity \<Rightarrow> bool" where
  "unplanned opportunity =
     (Opportunity_Actions opportunity = []
      \<and> Opportunity_Status opportunity \<noteq> OpportunityStatusRealized)"

definition actionsInfo :: "nat \<Rightarrow> ValidationError" where
  "actionsInfo i =
     mkFinding ''info'' ''6.1'' (''opportunity_'' @ Itoa i @ ''_actions'')
       ''Opportunity should have actions defined for realization''"

text \<open>
  The score with the half points of the info findings truncated: \<open>\<lfloor>0.5 * I\<rfloor>\<close> in
  the place of the specification's \<open>round (0.5 * I)\<close>.
\<close>

definition trunc_penalty :: "nat \<Rightarrow> nat \<Rightarrow> nat \<Rightarrow> int" where
  "trunc_penalty E W I = 3 * int E + 1 * int W + \<lfloor>0.5 * real I\<rfloor>"

definition trunc_score :: "nat \<Rightarrow> nat \<Rightarrow> nat \<Rightarrow> real" where
  "trunc_score E W I =
     max 0 (100 * (1 - real_of_int (trunc_penalty E W I) / real (3 * (E + W + I))))"

section \<open>Concrete inputs\<close>

definition example_issue :: "IssueType \<Rightarrow> Issue" where
  "example_issue ty =
     \<lparr>Issue_ID = ''ISSUE-1'', Issue_Description = ''Market change'', Issue_Type = ty,
      Issue_Impact = ''low'', Issue_Status = ''active'', Issue_Created = 1\<rparr>"

definition example_party :: "string \<Rightarrow> string \<Rightarrow> InterestedParty" where
  "example_party name ty =
     \<lparr>Party_ID = name, Party_Name = name, Party_Type = ty,
      Party_Requirements = [''Quality products'']\<rparr>"

definition example_action :: Action where
  "example_action =
     \<lparr>Action_ID = ''ACT-1'', Action_Description = ''Second supplier'',
      Action_Type = ''mitigation'', Action_Responsible = ''PERSON-1'', Action_Timeline = 9,
      Action_Status = ''planned'', Action_Created = 1\<rparr>"

definition example_risk :: "string \<Rightarrow> Action list \<Rightarrow> Risk" where
  "example_risk riskID mitigation =
     \<lparr>Risk_ID = riskID, Risk_Description = ''Supplier fails'', Risk_Causes = [],
      Risk_Effects = [], Risk_Likelihood = RiskLevelMedium, Risk_Impact = RiskLevelHigh,
      Risk_Priority = PriorityMedium, Risk_Mitigation = mitigation,
      Risk_Status = RiskStatusIdentified, Risk_Created = 1\<rparr>"

definition example_process :: "Risk list \<Rightarrow> Process" where
  "example_process risks =
     \<lparr>Process_ID = ''PROC-1'', Process_Name = ''Production'', Process_Description = '''',
      Process_Inputs = [\<lparr>Input_ID = ''IN-1'', Input_Name = ''Order'', Input_Type = '''',
                         Input_Source = ''Sales''\<rparr>],
      Process_Outputs = [\<lparr>Output_ID = ''OUT-1'', Output_Name = ''Product'', Output_Type = '''',
                          Output_Destination = ''Customer''\<rparr>],
      Process_Resources = [],
      Process_Responsibilities = [''Production manager''],
      Process_Criteria = [\<lparr>Criteria_ID = ''CRIT-1'', Criteria_Name = ''Yield'',
                           Criteria_Description = '''', Criteria_Metric = ''yield'',
                           Criteria_Target = ''99''\<rparr>],
      Process_Risks = risks, Process_Opportunities = [],
      Process_Status = ''implemented'', Process_Created = 1\<rparr>"

definition example_objective :: QualityObjective where
  "example_objective =
     \<lparr>Objective_ID = ''OBJ-001'', Objective_Name = ''On-time delivery'',
      Objective_Description = '''', Objective_Measurable = True,
      Objective_Targets = [\<lparr>Target_ID = ''T-1'', Target_Metric = ''on_time'',
                            Target_Value = ''95'', Target_Unit = ''percent''\<rparr>],
      Objective_Responsible = ''PERSON-1'',
      Objective_Timeline = \<lparr>Timeline_StartDate = 1, Timeline_TargetDate = 100,
                            Timeline_ReviewDate = 0\<rparr>,
      Objective_Status = ObjectiveStatusPlanned, Objective_Created = 1\<rparr>"

definition example_leadership :: "LeadershipCommitment list \<Rightarrow> Leadership" where
  "example_leadership commitments =
     \<lparr>Leadership_TopManagement =
        [\<lparr>Person_ID = ''PERSON-1'', Person_Name = ''A. Director'', Person_Role = ''CEO'',
          Person_Competence = [], Person_Training = []\<rparr>],
      Leadership_QualityPolicy =
        Some \<lparr>Policy_ID = ''POL-1'', Policy_Statement = ''We deliver quality'',
              Policy_Objectives = ''Framework'', Policy_Commitment = ''Requirements'',
              Policy_Improvement = ''Improve'', Policy_Communicated = True,
              Policy_Available = True, Policy_Created = 1, Policy_Updated = 1\<rparr>,
      Leadership_Roles =
        [\<lparr>Role_ID = ''ROLE-1'', Role_Name = ''Quality manager'',
          Role_Responsibilities = [''QMS''], Role_Authorities = [''Stop shipment''],
          Role_AssignedTo = ''PERSON-1''\<rparr>],
      Leadership_Commitment = commitments\<rparr>"

text \<open>
  An organization that is complete but for what its parameters leave out: the
  interested parties, the leadership commitments, the risks of the QMS and the risks of
  its one process. It has no opportunities.
\<close>

definition example_qms :: "Risk list \<Rightarrow> Risk list \<Rightarrow> QualityManagementSystem" where
  "example_qms qmsRisks processRisks =
     \<lparr>QMS_ID = ''QMS-1'',
      QMS_Scope = Some \<lparr>Scope_Description = ''Manufacturing'', Scope_Products = [''Parts''],
                        Scope_Services = [], Scope_Exclusions = [],
                        Scope_Justification = ''''\<rparr>,
      QMS_Processes = [example_process processRisks],
      QMS_Objectives = [example_objective],
      QMS_Risks = qmsRisks,
      QMS_Opportunities = [],
      QMS_Created = 1\<rparr>"

definition example_org ::
  "InterestedParty list \<Rightarrow> LeadershipCommitment list \<Rightarrow> Risk list \<Rightarrow> Risk list \<Rightarrow> Organization" where
  "example_org parties commitments qmsRisks processRisks =
     \<lparr>Org_ID = ''ORG-1'', Org_Name = ''Example'',
      Org_Context = Some
        \<lparr>Context_ExternalIssues = [example_issue ''external''],
         Context_InternalIssues = [example_issue ''internal''],
         Context_InterestedParties = parties\<rparr>,
      Org_Leadership = Some (example_leadership commitments),
      Org_QMS = Some (example_qms qmsRisks processRisks),
      Org_Created = 1, Org_Modified = 1\<rparr>"

definition all_parties :: "InterestedParty list" where
  "all_parties =
     [example_party ''Customer'' ''customer'', example_party ''Supplier'' ''supplier'',
      example_party ''Authority'' ''regulator'']"

text \<open>One finding: the info that no opportunity is identified.\<close>

definition org_one_info :: Organization where
  "org_one_info =
     example_org all_parties requiredCommitments [example_risk ''R1'' [example_action]]
       [example_risk ''R2'' []]"

text \<open>
  Three findings, all infos: no regulator among the parties, no risk in the process,
  no opportunity.
\<close>

definition org_three_infos :: Organization where
  "org_three_infos =
     example_org (take 2 all_parties) requiredCommitments
       [example_risk ''R1'' [example_action]] []"

text \<open>The organization of the package's test: one commitment, customer focus.\<close>

definition org_one_commitment :: Organization where
  "org_one_commitment =
     example_org all_parties [CommitmentCustomerFocus] [example_risk ''R1'' [example_action]] []"

text \<open>
  Two risks at the level of the QMS, the first without mitigation, and one risk without
  mitigation inside the process.
\<close>

definition org_nested_risks :: Organization where
  "org_nested_risks =
     example_org all_parties requiredCommitments
       [example_risk ''R1'' [], example_risk ''R2'' [example_action]]
       [example_risk ''R3'' []]"

definition example_runtime :: "string list \<Rightarrow> Runtime" where
  "example_runtime ks = \<lparr>now = 5, rangeRisks = ks, sortSlice = insertionSort\<rparr>"

text \<open>
  A risk manager after \<open>IdentifyRisk\<close> and \<open>AssessRisk("R1", medium, very_high)\<close>.
\<close>

definition rm_medium_very_high :: RiskManager where
  "rm_medium_very_high =
     snd (AssessRisk (example_runtime [''R1'']) ''R1'' RiskLevelMedium RiskLevelVeryHigh
       (snd (IdentifyRisk (example_runtime [''R1'']) (example_risk ''R1'' []) NewRiskManager)))"

text \<open>An objectives manager after \<open>CreateObjective\<close> of the example objective.\<close>

definition qom_created :: QualityObjectivesManager where
  "qom_created = snd (CreateObjective 5 example_objective NewQualityObjectivesManager)"

definition example_progress :: "real \<Rightarrow> ObjectiveProgress" where
  "example_progress p =
     \<lparr>Progress_ObjectiveID = '''', Progress_Date = 7, Progress_Progress = p,
      Progress_Status = ''on_track'', Progress_Comments = ''Report''\<rparr>"

definition managers_new :: Managers where
  "managers_new =
     \<lparr>riskManager = NewRiskManager, objectivesManager = NewQualityObjectivesManager,
      auditManager = NewAuditManager\<rparr>"

text \<open>The order of the register: no entry scores less than one after it.\<close>

definition by_score :: "RiskEntry \<Rightarrow> RiskEntry \<Rightarrow> bool" where
  "by_score a b = (Entry_RiskScore a \<ge> Entry_RiskScore b)"

text \<open>A risk manager after \<open>IdentifyRisk\<close> of two risks.\<close>

definition rm_two_risks :: RiskManager where
  "rm_two_risks =
     snd (IdentifyRisk (example_runtime [''R2'', ''R1'']) (example_risk ''R2'' [])
       (snd (IdentifyRisk (example_runtime [''R1'']) (example_risk ''R1'' []) NewRiskManager)))"

definition example_audit :: Audit where
  "example_audit =
     \<lparr>Audit_ID = ''AUDIT-001'', Audit_Title = ''Internal audit'', Audit_Type = ''internal'',
      Audit_Scope = \<lparr>AuditScope_Description = ''Clauses 4 and 5'', AuditScope_Processes = [],
                     AuditScope_Locations = [], AuditScope_Departments = [],
                     AuditScope_Clauses = [''4'', ''5''], AuditScope_Exclusions = [],
                     AuditScope_Objectives = []\<rparr>,
      Audit_PlannedStartDate = 7, Audit_PlannedEndDate = 10,
      Audit_ActualStartDate = None, Audit_ActualEndDate = None,
      Audit_Auditors = [], Audit_Auditees = [], Audit_Findings = [],
      Audit_Recommendations = [], Audit_Report = None, Audit_Status = '''',
      Audit_RiskAssessment = \<lparr>AuditRisk_Level = RiskLevelLow, AuditRisk_Description = '''',
                              AuditRisk_Mitigations = []\<rparr>,
      Audit_Created = 0, Audit_Modified = 0\<rparr>"

text \<open>The managers after \<open>CreateAudit\<close> and \<open>StartAudit\<close> of the example audit.\<close>

definition managers_audit_started :: Managers where
  "managers_audit_started =
     snd (apply_ManagerOp (example_runtime []) (OnAudits (OpStartAudit ''AUDIT-001'' 6))
       (snd (apply_ManagerOp (example_runtime []) (OnAudits (OpCreateAudit example_audit))
          managers_new)))"

text \<open>The two risks after \<open>AssessRisk("R2", very_high, very_high)\<close>.\<close>

definition rm_assessed :: RiskManager where
  "rm_assessed =
     snd (apply_RiskOp (example_runtime [''R1'', ''R2''])
            (OpAssessRisk ''R2'' RiskLevelVeryHigh RiskLevelVeryHigh) rm_two_risks)"

section \<open>Auxiliary facts\<close>

lemmas add_defs = addError_def addWarning_def addInfo_def check_def

lemmas checker_defs =
  ValidateOrganization_def validateContext_def validateContext_issue_def
  validateInterestedParties_def validateInterestedParties_party_def
  validateInterestedParties_missing_def validateQMSScope_def validateQMSScope_exclusion_def
  validateQMSScope_missing_def validateQMSProcesses_def validateQMSProcesses_process_def
  validateQMSProcesses_missing_def validateLeadership_def validateLeadership_required_def
  commitmentMap_def lookup_bool_def requiredCommitments_def
  validateQualityPolicy_def validateQualityPolicy_missing_def
  validateRolesResponsibilities_def validateRolesResponsibilities_role_def
  validateRolesResponsibilities_missing_def validateRisksOpportunities_def
  validateRisksOpportunities_risk_def validateRisksOpportunities_opportunity_def
  totalRisks_def totalOpportunities_def validateQualityObjectives_def
  validateQualityObjectives_objective_def validateQualityObjectives_missing_def
  run_def add_defs merge_def newResult_def IsZero_def

lemmas example_defs =
  example_org_def example_qms_def example_leadership_def example_objective_def
  example_process_def example_risk_def example_action_def example_party_def
  example_issue_def all_parties_def

lemmas op_defs = IdentifyRisk_def AssessRisk_def MitigateRisk_def MonitorRisk_def
  IdentifyOpportunity_def RealizeOpportunity_def CreateObjective_def
  UpdateObjectiveProgress_def CreateAudit_def StartAudit_def AddFinding_def CompleteAudit_def
  CreateManagementReview_def CompleteManagementReview_def

subsection \<open>Lists\<close>

lemma count_list_map_inj:
  "(\<And>x y. f x = f y \<longleftrightarrow> x = y) \<Longrightarrow> count_list (map f xs) (f x) = count_list xs x"
  by (induction xs) auto

lemma count_list_filter_distinct:
  "distinct xs \<Longrightarrow> count_list (filter P xs) x = (if x \<in> set xs \<and> P x then 1 else 0)"
  by (induction xs) auto

lemma count_list_0: "x \<notin> set xs \<Longrightarrow> count_list xs x = 0"
  by (induction xs) auto

lemma fold_add_lengths:
  "fold (\<lambda>x n. n + length (f x)) xs (n0::nat) = n0 + length (concat (map f xs))"
  by (induction xs arbitrary: n0) simp_all

subsection \<open>The score in terms of the three counts\<close>

lemma int_of_float_half: "int_of_float (real n / 2) = int (n div 2)"
proof -
  have "\<lfloor>real n / real 2\<rfloor> = int (n div 2)"
    by (rule floor_divide_of_nat_eq)
  then show ?thesis by (simp add: int_of_float_def)
qed

lemma floor_half: "\<lfloor>0.5 * real n\<rfloor> = int (n div 2)"
proof -
  have "\<lfloor>real n / real 2\<rfloor> = int (n div 2)"
    by (rule floor_divide_of_nat_eq)
  then show ?thesis by simp
qed

lemma score_not_negative: "q \<le> 1 \<Longrightarrow> \<not> 100 * (1 - q) < (0::real)"
  by simp

lemma GetComplianceScore_counts:
  "GetComplianceScore org =
     (if countErrors org + countWarnings org + countInfos org = 0 then 100
      else 100 * (1 - real (3 * countErrors org + countWarnings org + countInfos org div 2)
                      / real (3 * (countErrors org + countWarnings org + countInfos org))))"
proof -
  let ?E = "countErrors org" and ?W = "countWarnings org" and ?I = "countInfos org"
  have le: "real (3 * ?E + ?W + ?I div 2) \<le> real (3 * (?E + ?W + ?I))"
    by (rule of_nat_mono) simp
  show ?thesis
  proof (cases "?E + ?W + ?I = 0")
    case True
    then show ?thesis
      by (simp add: GetComplianceScore_def countErrors_def countWarnings_def countInfos_def)
  next
    case False
    then have "0 < 3 * (?E + ?W + ?I)" by simp
    then have pos: "0 < real (3 * (?E + ?W + ?I))" by (simp only: of_nat_0_less_iff)
    have "real (3 * ?E + ?W + ?I div 2) / real (3 * (?E + ?W + ?I)) \<le> 1"
      using le pos by (simp only: divide_le_eq_1_pos)
    then have nonneg:
      "\<not> 100 * (1 - real (3 * ?E + ?W + ?I div 2) / real (3 * (?E + ?W + ?I))) < 0"
      by (rule score_not_negative)
    have pen: "real_of_int (int ?E * 3 + int ?W * 1 + int_of_float (real ?I * 0.5))
                 = real (3 * ?E + ?W + ?I div 2)"
      by (simp add: int_of_float_half)
    have mx: "real_of_int ((int ?E + int ?W + int ?I) * 3) = real (3 * (?E + ?W + ?I))"
      by simp
    have tot: "int ?E + int ?W + int ?I \<noteq> 0" using False by linarith
    have "GetComplianceScore org =
        (let score = 100 * (1 - real_of_int (int ?E * 3 + int ?W * 1
                                              + int_of_float (real ?I * 0.5))
                                 / real_of_int ((int ?E + int ?W + int ?I) * 3))
         in if score < 0 then 0 else score)"
      using tot
      by (simp add: GetComplianceScore_def countErrors_def countWarnings_def countInfos_def
            Let_def)
    then show ?thesis
      using False nonneg by (simp only: pen mx Let_def if_False)
  qed
qed

lemma counts_one_info:
  "countErrors org_one_info = 0 \<and> countWarnings org_one_info = 0 \<and> countInfos org_one_info = 1"
  by (simp add: countErrors_def countWarnings_def countInfos_def org_one_info_def
        checker_defs example_defs)

lemma counts_three_infos:
  "countErrors org_three_infos = 0 \<and> countWarnings org_three_infos = 0
   \<and> countInfos org_three_infos = 3"
  by (simp add: countErrors_def countWarnings_def countInfos_def org_three_infos_def
        checker_defs example_defs)

lemma score_bounds:
  "0 \<le> q \<Longrightarrow> q \<le> 1 \<Longrightarrow> 0 \<le> 100 * (1 - q) \<and> 100 * (1 - q) \<le> (100::real)"
  by simp

lemma score_100: "100 * (1 - q) = (100::real) \<longleftrightarrow> q = 0"
  by simp

lemma GetComplianceScore_nonneg_form:
  assumes "countErrors org + countWarnings org + countInfos org > 0"
  shows "GetComplianceScore org
           = 100 * (1 - real (3 * countErrors org + countWarnings org + countInfos org div 2)
                        / real (3 * (countErrors org + countWarnings org + countInfos org)))"
    and "0 \<le> real (3 * countErrors org + countWarnings org + countInfos org div 2)
               / real (3 * (countErrors org + countWarnings org + countInfos org))"
    and "real (3 * countErrors org + countWarnings org + countInfos org div 2)
               / real (3 * (countErrors org + countWarnings org + countInfos org)) \<le> 1"
proof -
  let ?p = "3 * countErrors org + countWarnings org + countInfos org div 2"
  let ?m = "3 * (countErrors org + countWarnings org + countInfos org)"
  show "GetComplianceScore org = 100 * (1 - real ?p / real ?m)"
    using assms by (simp only: GetComplianceScore_counts) simp
  show "0 \<le> real ?p / real ?m"
    by (rule divide_nonneg_nonneg) simp_all
  have "0 < ?m" using assms by simp
  then have pos: "0 < real ?m" by (simp only: of_nat_0_less_iff)
  have "real ?p \<le> real ?m" by (rule of_nat_mono) simp
  then show "real ?p / real ?m \<le> 1"
    using pos by (simp only: divide_le_eq_1_pos)
qed

text \<open>
  What holds of the range of the score: it lies between 0 and 100, and it is 100 exactly
  when there is no error, no warning and at most one info finding.
\<close>

lemma GetComplianceScore_range:
  "0 \<le> GetComplianceScore org \<and> GetComplianceScore org \<le> 100"
proof (cases "countErrors org + countWarnings org + countInfos org > 0")
  case True
  note f = GetComplianceScore_nonneg_form [OF True]
  show ?thesis unfolding f(1) by (rule score_bounds [OF f(2) f(3)])
next
  case False
  then show ?thesis by (simp add: GetComplianceScore_counts)
qed

lemma GetComplianceScore_100_iff:
  "GetComplianceScore org = 100
     \<longleftrightarrow> countErrors org = 0 \<and> countWarnings org = 0 \<and> countInfos org \<le> 1"
proof (cases "countErrors org + countWarnings org + countInfos org > 0")
  case True
  let ?p = "3 * countErrors org + countWarnings org + countInfos org div 2"
  let ?m = "3 * (countErrors org + countWarnings org + countInfos org)"
  note f = GetComplianceScore_nonneg_form [OF True]
  have "0 < ?m" using True by simp
  then have pos: "real ?m \<noteq> 0" by (simp only: of_nat_eq_0_iff)
  have "GetComplianceScore org = 100 \<longleftrightarrow> real ?p / real ?m = 0"
    unfolding f(1) by (rule score_100)
  also have "\<dots> \<longleftrightarrow> ?p = 0"
    using pos by (simp only: divide_eq_0_iff of_nat_eq_0_iff simp_thms)
  also have "\<dots> \<longleftrightarrow> countErrors org = 0 \<and> countWarnings org = 0 \<and> countInfos org \<le> 1"
    by auto
  finally show ?thesis .
next
  case False
  then show ?thesis by (simp add: GetComplianceScore_counts)
qed

section \<open>Compliance score\<close>

text \<open>
  C2. The score is claimed to lie in [0,100] and to be exactly 100 if and only if
  validation produces no finding at all. The range holds (\<open>GetComplianceScore_range\<close>),
  the equivalence does not: the conversion to \<open>int\<close> drops the half point of a single
  info finding, so an organization whose only finding is one info scores 100
  (\<open>GetComplianceScore_100_iff\<close> gives the exact condition). The source states the
  weight of an info finding as 0.5 points. Evaluated here: the organization
  \<open>org_one_info\<close> has one finding and the score 100.
\<close>

theorem GetComplianceScore_one_info:
  "countErrors org_one_info + countWarnings org_one_info + countInfos org_one_info = 1
   \<and> GetComplianceScore org_one_info = 100"
  by (simp add: GetComplianceScore_counts counts_one_info)

text \<open>
  What the code computes when there is a finding: the half points of the info findings
  are taken over the whole count and truncated by the conversion to \<open>int\<close>, and the
  floor at 0 is never reached.
\<close>

lemma GetComplianceScore_truncated:
  assumes "countErrors org + countWarnings org + countInfos org > 0"
  shows "GetComplianceScore org
           = trunc_score (countErrors org) (countWarnings org) (countInfos org)"
proof -
  note f = GetComplianceScore_nonneg_form [OF assms]
  have pen: "real_of_int (trunc_penalty (countErrors org) (countWarnings org) (countInfos org))
               = real (3 * countErrors org + countWarnings org + countInfos org div 2)"
    unfolding trunc_penalty_def floor_half by simp
  have "0 \<le> 100 * (1 - real (3 * countErrors org + countWarnings org + countInfos org div 2)
                        / real (3 * (countErrors org + countWarnings org + countInfos org)))"
    using score_bounds [OF f(2) f(3)] by (rule conjunct1)
  then show ?thesis
    unfolding trunc_score_def pen f(1) by (rule max_absorb2 [symmetric])
qed

text \<open>
  C3. For an organization with at least one finding the score is claimed to be
  \<open>100 * (1 - penalty / maxPossible)\<close> floored at 0, with
  \<open>penalty = 3 * E + W + round (0.5 * I)\<close> and \<open>maxPossible = 3 * (E + W + I)\<close>. The
  code converts \<open>0.5 * I\<close> to \<open>int\<close>, which drops the half point of an odd number of
  info findings, although the source states the weight of an info finding as 0.5 points.
  Evaluated here: the organization \<open>org_three_infos\<close> has three info findings and no
  other; the claimed penalty is 2 and the claimed score 700/9 (the stated weight gives
  the penalty 1.5), while the code's penalty is 1 and its score 800/9, more than 11
  points above the claimed one.
\<close>

theorem GetComplianceScore_three_infos:
  "countErrors org_three_infos = 0 \<and> countWarnings org_three_infos = 0
   \<and> countInfos org_three_infos = 3
   \<and> spec_penalty 0 0 3 = 2
   \<and> spec_score 0 0 3 = 700 / 9
   \<and> GetComplianceScore org_three_infos = 800 / 9
   \<and> GetComplianceScore org_three_infos
       - spec_score (countErrors org_three_infos) (countWarnings org_three_infos)
           (countInfos org_three_infos) > 11"
proof -
  have p: "spec_penalty 0 0 3 = 2"
    by (simp add: spec_penalty_def round_def)
  have s: "spec_score 0 0 3 = 700 / 9"
    by (simp add: spec_score_def spec_penalty_def round_def)
  have g: "GetComplianceScore org_three_infos = 800 / 9"
    by (simp add: GetComplianceScore_counts counts_three_infos)
  show ?thesis
    using p s g by (simp add: counts_three_infos)
qed

section \<open>Risk score and priority\<close>

text \<open>
  C5. For all 25 pairs of levels of the five-level scale, the risk score of the register
  entry is the product of the weights 1, 1, 2, 3, 4 of likelihood and impact (so very low
  and low give the same score), and the priority is a function of that score: at least
  16 critical, at least 9 high, at least 4 medium, otherwise low; the scores that occur
  are 16 (critical), 9 and 12 (high), 4, 6 and 8 (medium), 1, 2 and 3 (low).
\<close>

theorem risk_score_and_priority:
  assumes "Risk_Likelihood risk \<in> set RiskLevels" and "Risk_Impact risk \<in> set RiskLevels"
  shows "Entry_RiskScore (mkRiskEntry t riskID risk)
           = spec_weight (Risk_Likelihood risk) * spec_weight (Risk_Impact risk)
       \<and> Entry_RiskScore (mkRiskEntry t riskID (risk\<lparr>Risk_Likelihood := RiskLevelVeryLow\<rparr>))
           = Entry_RiskScore (mkRiskEntry t riskID (risk\<lparr>Risk_Likelihood := RiskLevelLow\<rparr>))
       \<and> calculatePriority (Risk_Likelihood risk) (Risk_Impact risk)
           = (let score = Entry_RiskScore (mkRiskEntry t riskID risk)
              in if score \<ge> 16 then PriorityCritical
                 else if score \<ge> 9 then PriorityHigh
                 else if score \<ge> 4 then PriorityMedium
                 else PriorityLow)
       \<and> calculatePriority (Risk_Likelihood risk) (Risk_Impact risk)
           = (let score = Entry_RiskScore (mkRiskEntry t riskID risk)
              in if score \<in> {16} then PriorityCritical
                 else if score \<in> {9, 12} then PriorityHigh
                 else if score \<in> {4, 6, 8} then PriorityMedium
                 else PriorityLow)
       \<and> Entry_RiskScore (mkRiskEntry t riskID risk) \<in> {1, 2, 3, 4, 6, 8, 9, 12, 16}"
  using assms
  by (auto simp: RiskLevels_def mkRiskEntry_def spec_weight_def calculatePriority_def Let_def)

theorem risk_score_and_priority_witness:
  "Risk_Likelihood (example_risk ''R1'' []) \<in> set RiskLevels
   \<and> Risk_Impact (example_risk ''R1'' []) \<in> set RiskLevels
   \<and> Entry_RiskScore (mkRiskEntry 5 ''R1'' (example_risk ''R1'' [])) = 6
   \<and> calculatePriority RiskLevelMedium RiskLevelHigh = PriorityMedium"
proof -
  have l: "Risk_Likelihood (example_risk ''R1'' []) \<in> set RiskLevels"
    by (simp add: example_risk_def RiskLevels_def)
  have i: "Risk_Impact (example_risk ''R1'' []) \<in> set RiskLevels"
    by (simp add: example_risk_def RiskLevels_def)
  show ?thesis
    using l i risk_score_and_priority [OF l i, of 5 "''R1''"]
    by (simp add: example_risk_def spec_weight_def Let_def)
qed

section \<open>Leadership commitments\<close>

lemma lookup_bool_fold:
  "lookup_bool (fold (\<lambda>commitment m. m(commitment \<mapsto> True)) cs m0) c
     = (c \<in> set cs \<or> lookup_bool m0 c)"
  by (induction cs arbitrary: m0) (auto simp: lookup_bool_def)

lemma lookup_bool_commitmentMap: "lookup_bool (commitmentMap cs) c = (c \<in> set cs)"
  by (simp add: commitmentMap_def lookup_bool_fold) (simp add: lookup_bool_def)

lemma fold_required_errors:
  "Result_Errors (fold (validateLeadership_required m) cs r)
     = Result_Errors r @ map missingCommitment (filter (\<lambda>c. \<not> lookup_bool m c) cs)"
  by (induction cs arbitrary: r)
     (simp_all add: validateLeadership_required_def add_defs missingCommitment_def)

lemma validateLeadership_errors:
  "Org_Leadership org = Some l \<Longrightarrow>
   Result_Errors (validateLeadership org)
     = (if Leadership_TopManagement l = []
        then [mkFinding ''error'' ''5.1'' ''top_management'' ''Top management must be identified'']
        else [])
       @ map missingCommitment
           (filter (\<lambda>c. c \<notin> set (Leadership_Commitment l)) requiredCommitments)"
  by (simp add: validateLeadership_def run_def fold_required_errors lookup_bool_commitmentMap
        add_defs newResult_def)

lemma inj_missingCommitment: "missingCommitment c = missingCommitment d \<longleftrightarrow> c = d"
  by (simp add: missingCommitment_def mkFinding_def)

lemma distinct_requiredCommitments: "distinct requiredCommitments"
  by (simp add: requiredCommitments_def)

text \<open>
  C6. For every organization with a leadership block, the clause 5.1 checker emits, for
  each of the twelve required commitments, exactly one error finding naming the tag when
  the tag is absent from the organization's commitments, and no such finding when it is
  present; the findings on commitments are these and no others.
\<close>

theorem validateLeadership_commitments:
  assumes "Org_Leadership org = Some leadership" and "c \<in> set requiredCommitments"
  shows "count_list (Result_Errors (validateLeadership org))
           (mkFinding ''error'' ''5.1'' ''leadership_commitment''
              (''Missing leadership commitment: '' @ c))
         = (if c \<in> set (Leadership_Commitment leadership) then 0 else 1)
       \<and> filter (\<lambda>e. ValErr_Field e = ''leadership_commitment'')
           (Result_Errors (validateLeadership org))
         = map missingCommitment
             (filter (\<lambda>c. c \<notin> set (Leadership_Commitment leadership)) requiredCommitments)
       \<and> length requiredCommitments = 12"
proof -
  have top: "count_list (if Leadership_TopManagement leadership = []
        then [mkFinding ''error'' ''5.1'' ''top_management'' ''Top management must be identified'']
        else []) (missingCommitment c) = 0"
    by (simp add: missingCommitment_def mkFinding_def)
  have "count_list (Result_Errors (validateLeadership org)) (missingCommitment c)
        = count_list (filter (\<lambda>c. c \<notin> set (Leadership_Commitment leadership))
            requiredCommitments) c"
    using top
    by (simp add: validateLeadership_errors [OF assms(1)]
          count_list_map_inj [OF inj_missingCommitment])
  also have "\<dots> = (if c \<in> set (Leadership_Commitment leadership) then 0 else 1)"
    using assms(2) by (simp add: count_list_filter_distinct [OF distinct_requiredCommitments])
  finally have one: "count_list (Result_Errors (validateLeadership org))
           (mkFinding ''error'' ''5.1'' ''leadership_commitment''
              (''Missing leadership commitment: '' @ c))
         = (if c \<in> set (Leadership_Commitment leadership) then 0 else 1)"
    by (simp add: missingCommitment_def)
  have field: "\<And>cs. filter (\<lambda>e. ValErr_Field e = ''leadership_commitment'')
                   (map missingCommitment cs) = map missingCommitment cs"
    by (simp add: missingCommitment_def mkFinding_def filter_map comp_def)
  have all: "filter (\<lambda>e. ValErr_Field e = ''leadership_commitment'')
           (Result_Errors (validateLeadership org))
         = map missingCommitment
             (filter (\<lambda>c. c \<notin> set (Leadership_Commitment leadership)) requiredCommitments)"
    by (simp add: validateLeadership_errors [OF assms(1)] field) (simp add: mkFinding_def)
  show ?thesis
    using one all by (simp add: requiredCommitments_def)
qed

theorem validateLeadership_commitments_witness:
  "Org_Leadership org_one_commitment = Some (example_leadership [CommitmentCustomerFocus])
   \<and> CommitmentQualityPolicy \<in> set requiredCommitments
   \<and> CommitmentCustomerFocus \<in> set requiredCommitments
   \<and> count_list (Result_Errors (validateLeadership org_one_commitment))
        (mkFinding ''error'' ''5.1'' ''leadership_commitment''
           ''Missing leadership commitment: quality_policy'') = 1
   \<and> count_list (Result_Errors (validateLeadership org_one_commitment))
        (mkFinding ''error'' ''5.1'' ''leadership_commitment''
           ''Missing leadership commitment: customer_focus'') = 0"
proof -
  have l: "Org_Leadership org_one_commitment = Some (example_leadership [CommitmentCustomerFocus])"
    by (simp add: org_one_commitment_def example_org_def)
  have p: "CommitmentQualityPolicy \<in> set requiredCommitments"
    by (simp add: requiredCommitments_def)
  have f: "CommitmentCustomerFocus \<in> set requiredCommitments"
    by (simp add: requiredCommitments_def)
  show ?thesis
    using l p f validateLeadership_commitments [OF l p] validateLeadership_commitments [OF l f]
    by (simp add: example_leadership_def)
qed

section \<open>Risks and opportunities (clause 6.1)\<close>

lemma totalRisks_flat:
  "totalRisks qms = length (QMS_Risks qms @ concat (map Process_Risks (QMS_Processes qms)))"
  by (simp add: totalRisks_def fold_add_lengths)

lemma totalOpportunities_flat:
  "totalOpportunities qms
     = length (QMS_Opportunities qms @ concat (map Process_Opportunities (QMS_Processes qms)))"
  by (simp add: totalOpportunities_def fold_add_lengths)

lemma fold_risk_findings:
  "fold validateRisksOpportunities_risk (enumerate n risks) r
     = r\<lparr>Result_Warnings := Result_Warnings r
            @ map (\<lambda>(i, risk). mitigationWarning i)
                (filter (\<lambda>(i, risk). unmitigated risk) (enumerate n risks))\<rparr>"
  by (induction risks arbitrary: n r)
     (simp_all add: validateRisksOpportunities_risk_def add_defs mitigationWarning_def
        unmitigated_def)

lemma fold_opportunity_findings:
  "fold validateRisksOpportunities_opportunity (enumerate n opportunities) r
     = r\<lparr>Result_Infos := Result_Infos r
            @ map (\<lambda>(i, opportunity). actionsInfo i)
                (filter (\<lambda>(i, opportunity). unplanned opportunity)
                   (enumerate n opportunities))\<rparr>"
  by (induction opportunities arbitrary: n r)
     (simp_all add: validateRisksOpportunities_opportunity_def add_defs actionsInfo_def
        unplanned_def)

lemma validateRisksOpportunities_warnings:
  "Org_QMS org = Some qms \<Longrightarrow>
   Result_Warnings (validateRisksOpportunities org)
     = (if totalRisks qms = 0 then [noRisksWarning] else [])
       @ map (\<lambda>(i, risk). mitigationWarning i)
           (filter (\<lambda>(i, risk). unmitigated risk) (enumerate 0 (QMS_Risks qms)))"
  by (simp add: validateRisksOpportunities_def run_def fold_risk_findings
        fold_opportunity_findings add_defs newResult_def noRisksWarning_def)

lemma validateRisksOpportunities_infos:
  "Org_QMS org = Some qms \<Longrightarrow>
   Result_Infos (validateRisksOpportunities org)
     = (if totalOpportunities qms = 0 then [noOpportunitiesInfo] else [])
       @ map (\<lambda>(i, opportunity). actionsInfo i)
           (filter (\<lambda>(i, opportunity). unplanned opportunity)
              (enumerate 0 (QMS_Opportunities qms)))"
  by (simp add: validateRisksOpportunities_def run_def fold_risk_findings
        fold_opportunity_findings add_defs newResult_def noOpportunitiesInfo_def)

lemma validateRisksOpportunities_errors:
  "Org_QMS org = Some qms \<Longrightarrow> Result_Errors (validateRisksOpportunities org) = []"
  by (simp add: validateRisksOpportunities_def run_def fold_risk_findings
        fold_opportunity_findings add_defs newResult_def)

lemma noRisksWarning_not_mitigation:
  "noRisksWarning \<notin> set (map (\<lambda>(i, risk). mitigationWarning i) xs)"
  by (auto simp: noRisksWarning_def mitigationWarning_def mkFinding_def)

lemma noOpportunitiesInfo_not_actions:
  "noOpportunitiesInfo \<notin> set (map (\<lambda>(i, opportunity). actionsInfo i) xs)"
  by (auto simp: noOpportunitiesInfo_def actionsInfo_def mkFinding_def)

lemma example_qms_totals:
  "Org_QMS org_nested_risks = Some (example_qms [example_risk ''R1'' [],
       example_risk ''R2'' [example_action]] [example_risk ''R3'' []])"
  by (simp add: org_nested_risks_def example_org_def)

text \<open>
  C9. For every organization with a QMS, the clause 6.1 checker's risk total and
  opportunity total are the lengths of the flattened lists (the list of the QMS followed
  by the list of every process, nothing removed), the warning that no risks are
  identified is emitted (once) exactly when the risk total is 0, and the info that no
  opportunities are identified is emitted (once) exactly when the opportunity total is 0.
\<close>

theorem totals_flattened:
  assumes "Org_QMS org = Some qms"
  shows "totalRisks qms = length (QMS_Risks qms @ concat (map Process_Risks (QMS_Processes qms)))
       \<and> totalOpportunities qms
           = length (QMS_Opportunities qms
                       @ concat (map Process_Opportunities (QMS_Processes qms)))
       \<and> count_list (Result_Warnings (validateRisksOpportunities org)) noRisksWarning
           = (if totalRisks qms = 0 then 1 else 0)
       \<and> count_list (Result_Infos (validateRisksOpportunities org)) noOpportunitiesInfo
           = (if totalOpportunities qms = 0 then 1 else 0)"
proof -
  have w: "count_list (Result_Warnings (validateRisksOpportunities org)) noRisksWarning
           = (if totalRisks qms = 0 then 1 else 0)"
    by (simp add: validateRisksOpportunities_warnings [OF assms]
          count_list_0 [OF noRisksWarning_not_mitigation])
  have i: "count_list (Result_Infos (validateRisksOpportunities org)) noOpportunitiesInfo
           = (if totalOpportunities qms = 0 then 1 else 0)"
    by (simp add: validateRisksOpportunities_infos [OF assms]
          count_list_0 [OF noOpportunitiesInfo_not_actions])
  show ?thesis
    using w i totalRisks_flat [of qms] totalOpportunities_flat [of qms] by simp
qed

theorem totals_flattened_witness:
  "Org_QMS org_nested_risks = Some (example_qms [example_risk ''R1'' [],
       example_risk ''R2'' [example_action]] [example_risk ''R3'' []])
   \<and> totalRisks (example_qms [example_risk ''R1'' [], example_risk ''R2'' [example_action]]
        [example_risk ''R3'' []]) = 3
   \<and> count_list (Result_Warnings (validateRisksOpportunities org_nested_risks)) noRisksWarning = 0
   \<and> totalOpportunities (example_qms [example_risk ''R1'' [],
        example_risk ''R2'' [example_action]] [example_risk ''R3'' []]) = 0
   \<and> count_list (Result_Infos (validateRisksOpportunities org_nested_risks)) noOpportunitiesInfo
       = 1"
  using example_qms_totals totals_flattened [OF example_qms_totals]
  by (simp add: example_qms_def example_process_def)

text \<open>
  C10. For every organization with a QMS, the per-record findings of the clause 6.1
  checker come from the lists of the QMS alone: after the finding on the total, the
  warnings are one "risk should have mitigation actions defined" for each risk of the QMS
  list, in order and under its index, that has no mitigation action and is not in status
  mitigated, and the infos are one for each opportunity of the QMS list that has no action
  and is not in status realized. The risks and opportunities inside the processes occur
  in the totals only; the checker emits no error.
\<close>

theorem per_record_findings_qms_level:
  assumes "Org_QMS org = Some qms"
  shows "Result_Warnings (validateRisksOpportunities org)
           = (if totalRisks qms = 0 then [noRisksWarning] else [])
             @ map (\<lambda>(i, risk). mitigationWarning i)
                 (filter (\<lambda>(i, risk). unmitigated risk) (enumerate 0 (QMS_Risks qms)))
       \<and> Result_Infos (validateRisksOpportunities org)
           = (if totalOpportunities qms = 0 then [noOpportunitiesInfo] else [])
             @ map (\<lambda>(i, opportunity). actionsInfo i)
                 (filter (\<lambda>(i, opportunity). unplanned opportunity)
                    (enumerate 0 (QMS_Opportunities qms)))
       \<and> Result_Errors (validateRisksOpportunities org) = []"
  using validateRisksOpportunities_warnings [OF assms]
    validateRisksOpportunities_infos [OF assms] validateRisksOpportunities_errors [OF assms]
  by simp

theorem per_record_findings_qms_level_witness:
  "Org_QMS org_nested_risks = Some (example_qms [example_risk ''R1'' [],
       example_risk ''R2'' [example_action]] [example_risk ''R3'' []])
   \<and> unmitigated (example_risk ''R3'' [])
   \<and> Result_Warnings (validateRisksOpportunities org_nested_risks)
       = [mkFinding ''warning'' ''6.1'' ''risk_0_mitigation''
            ''Risk should have mitigation actions defined'']
   \<and> Result_Infos (validateRisksOpportunities org_nested_risks) = [noOpportunitiesInfo]"
  using example_qms_totals per_record_findings_qms_level [OF example_qms_totals]
  by (simp add: example_qms_def example_process_def example_risk_def unmitigated_def
        mitigationWarning_def totalRisks_def totalOpportunities_def Itoa.simps digit_def)



section \<open>Critical risks\<close>

lemma string_ge_levels: "l \<in> set RiskLevels \<Longrightarrow> string_ge l RiskLevelHigh"
  by (auto simp: RiskLevels_def string_ge_def)

lemma GetCriticalRisks_fold:
  "fold (\<lambda>(riskID, risk) critical.
            if Risk_Impact risk = RiskLevelVeryHigh
               \<and> string_ge (Risk_Likelihood risk) RiskLevelHigh
            then critical @ [risk] else critical) xs acc
     = acc @ map snd (filter (\<lambda>(riskID, risk). Risk_Impact risk = RiskLevelVeryHigh
               \<and> string_ge (Risk_Likelihood risk) RiskLevelHigh) xs)"
  by (induction xs arbitrary: acc) (auto simp: case_prod_unfold)

text \<open>
  What the query returns: the risks of very high impact whose likelihood, as a string, is
  not before \<open>high\<close>; each of the five levels is such a string.
\<close>

lemma GetCriticalRisks_filter:
  "GetCriticalRisks ks rm
     = map snd (filter (\<lambda>(riskID, risk). Risk_Impact risk = RiskLevelVeryHigh
               \<and> string_ge (Risk_Likelihood risk) RiskLevelHigh) (range_map ks (RM_Risks rm)))"
  by (simp add: GetCriticalRisks_def GetCriticalRisks_fold)

lemma rm_medium_very_high_risks:
  "RM_Risks rm_medium_very_high
     = [''R1'' \<mapsto> (example_risk ''R1'' [])\<lparr>Risk_Created := 5,
          Risk_Likelihood := RiskLevelMedium, Risk_Impact := RiskLevelVeryHigh,
          Risk_Priority := PriorityMedium, Risk_Status := RiskStatusAssessed\<rparr>]"
  by (simp add: rm_medium_very_high_def AssessRisk_def IdentifyRisk_def updateRegister_def
        example_runtime_def example_risk_def NewRiskManager_def Let_def calculatePriority_def)

text \<open>
  C1. The query for critical risks is claimed to return exactly the risks with impact
  very high and likelihood high or very high. The code tests the likelihood with \<open>>=\<close>
  on the string type \<open>RiskLevel\<close>, and every level of the scale is, as a string, not
  before \<open>high\<close> (\<open>string_ge_levels\<close>), so a risk of very high impact is returned
  whichever of the five levels its likelihood is. Evaluated here: the manager holds one risk, assessed with
  likelihood medium and impact very high, and the query returns it.
\<close>

theorem GetCriticalRisks_medium_likelihood:
  "range_of (RM_Risks rm_medium_very_high) [''R1'']
   \<and> map (\<lambda>risk. (Risk_ID risk, Risk_Likelihood risk, Risk_Impact risk))
       (GetCriticalRisks [''R1''] rm_medium_very_high)
     = [(''R1'', RiskLevelMedium, RiskLevelVeryHigh)]
   \<and> \<not> spec_likelihood_at_least_high RiskLevelMedium"
  by (simp add: GetCriticalRisks_filter range_map_def rm_medium_very_high_risks string_ge_def
        example_risk_def spec_likelihood_at_least_high_def range_of_def)

section \<open>Objective status\<close>

lemma UpdateObjectiveProgress_known:
  assumes "QOM_Objectives qom oid = Some objective"
  shows "fst (UpdateObjectiveProgress oid p qom) = None
       \<and> QOM_Objectives (snd (UpdateObjectiveProgress oid p qom)) oid
           = Some (objective\<lparr>Objective_Status :=
                (if Progress_Progress p \<ge> 100 then ObjectiveStatusAchieved
                 else if Progress_Progress p > 0 then ObjectiveStatusInProgress
                 else Objective_Status objective)\<rparr>)"
  using assms by (simp add: UpdateObjectiveProgress_def Let_def)

lemma reportAll_Cons:
  "reportAll oid (p # ps) qom = reportAll oid ps (snd (UpdateObjectiveProgress oid p qom))"
  by (simp add: reportAll_def)

lemma reportAll_status:
  assumes "QOM_Objectives qom oid = Some objective"
  shows "statusOf (reportAll oid reports qom) oid
         = Some (let positive = filter (\<lambda>p. Progress_Progress p > 0) reports
                 in if positive = [] then Objective_Status objective
                    else if Progress_Progress (last positive) \<ge> 100 then ObjectiveStatusAchieved
                    else ObjectiveStatusInProgress)"
  using assms
proof (induction reports arbitrary: qom objective)
  case Nil
  then show ?case by (simp add: reportAll_def statusOf_def)
next
  case (Cons p ps)
  let ?obj = "objective\<lparr>Objective_Status :=
                (if Progress_Progress p \<ge> 100 then ObjectiveStatusAchieved
                 else if Progress_Progress p > 0 then ObjectiveStatusInProgress
                 else Objective_Status objective)\<rparr>"
  have step: "QOM_Objectives (snd (UpdateObjectiveProgress oid p qom)) oid = Some ?obj"
    using UpdateObjectiveProgress_known [OF Cons.prems] by simp
  show ?case
    unfolding reportAll_Cons Cons.IH [OF step]
    by (simp add: Let_def)
qed

lemma qom_created_objective:
  "QOM_Objectives qom_created ''OBJ-001''
     = Some (example_objective\<lparr>Objective_Created := 5\<rparr>)"
  by (simp add: qom_created_def CreateObjective_def example_objective_def
        NewQualityObjectivesManager_def Let_def)

text \<open>
  C4 (as amended). For every objective registered in a manager and every sequence of
  progress reports on it, the status after the reports is decided by the last report
  with a positive percentage: achieved when that percentage is at least 100 (values over
  100 included), in progress when it is below 100, also when the objective had been
  achieved before. A report of 0 leaves the status as it is, so without a positive report
  the status is the one before the calls (planned for a newly created objective).
\<close>

theorem status_after_reports:
  assumes "QOM_Objectives qom objectiveID = Some objective"
  shows "statusOf (reportAll objectiveID reports qom) objectiveID
         = Some (let positive = filter (\<lambda>p. Progress_Progress p > 0) reports
                 in if positive = [] then Objective_Status objective
                    else if Progress_Progress (last positive) \<ge> 100 then ObjectiveStatusAchieved
                    else ObjectiveStatusInProgress)"
  using reportAll_status [OF assms] .

theorem status_after_reports_witness:
  "QOM_Objectives qom_created ''OBJ-001'' = Some (example_objective\<lparr>Objective_Created := 5\<rparr>)
   \<and> statusOf (reportAll ''OBJ-001'' [] qom_created) ''OBJ-001'' = Some ObjectiveStatusPlanned
   \<and> statusOf (reportAll ''OBJ-001'' [example_progress 0] qom_created) ''OBJ-001''
       = Some ObjectiveStatusPlanned
   \<and> statusOf (reportAll ''OBJ-001'' [example_progress 45] qom_created) ''OBJ-001''
       = Some ObjectiveStatusInProgress
   \<and> statusOf (reportAll ''OBJ-001'' [example_progress 45, example_progress 150,
         example_progress 0] qom_created) ''OBJ-001''
       = Some ObjectiveStatusAchieved"
  using qom_created_objective
    status_after_reports [OF qom_created_objective, of "[]"]
    status_after_reports [OF qom_created_objective, of "[example_progress 0]"]
    status_after_reports [OF qom_created_objective, of "[example_progress 45]"]
    status_after_reports [OF qom_created_objective,
      of "[example_progress 45, example_progress 150, example_progress 0]"]
  by (simp add: example_progress_def example_objective_def)

text \<open>
  The claim as stated fails twice: after the reports 50 and 0 the status is in progress,
  not the planned that the latest percentage 0 stands for; and after the reports 100 and
  50 the status has gone back from achieved to in progress.
\<close>

theorem status_not_by_latest_report:
  "statusOf (reportAll ''OBJ-001'' [example_progress 50, example_progress 0] qom_created)
       ''OBJ-001''
     \<noteq> Some (spec_status (Progress_Progress (example_progress 0)))
   \<and> statusOf (reportAll ''OBJ-001'' [example_progress 100] qom_created) ''OBJ-001''
     = Some ObjectiveStatusAchieved
   \<and> statusOf (reportAll ''OBJ-001'' [example_progress 100, example_progress 50] qom_created)
       ''OBJ-001''
     \<noteq> Some ObjectiveStatusAchieved"
  by (simp add: reportAll_status [OF qom_created_objective] example_progress_def
        spec_status_def example_objective_def)

section \<open>The register\<close>

lemma range_map_keys: "set ks \<subseteq> dom m \<Longrightarrow> map fst (range_map ks m) = ks"
  by (induction ks) (auto simp: range_map_def)

lemma updateRegister_risks: "RM_Risks (updateRegister rt rm) = RM_Risks rm"
  by (simp add: updateRegister_def Let_def)

lemma risk_op_updates_register:
  "apply_RiskOp rt op rm = (None, rm') \<Longrightarrow> \<exists>rm0. rm' = updateRegister rt rm0"
  by (cases op)
     (auto simp: IdentifyRisk_def AssessRisk_def MitigateRisk_def MonitorRisk_def
        IdentifyOpportunity_def RealizeOpportunity_def Let_def
        split: option.splits if_splits)

lemma mkRiskEntry_id: "Entry_RiskID (mkRiskEntry t k risk) = k"
  by (simp add: mkRiskEntry_def)

lemma updateRegister_register:
  assumes srt: "sorts_slice (sortSlice rt)"
    and ks: "range_of (RM_Risks rm) (rangeRisks rt)"
  shows "length (Register_CriticalRisks (RM_Register (updateRegister rt rm)))
           = min 10 (card (dom (RM_Risks rm)))"
    and "sorted_wrt by_score (Register_OrganizationRisks (RM_Register (updateRegister rt rm)))"
    and "Register_CriticalRisks (RM_Register (updateRegister rt rm))
           = take 10 (Register_OrganizationRisks (RM_Register (updateRegister rt rm)))"
    and "mset (map Entry_RiskID (Register_OrganizationRisks (RM_Register (updateRegister rt rm))))
           = mset (rangeRisks rt)"
proof -
  let ?entries = "map (\<lambda>(riskID, risk). mkRiskEntry (now rt) riskID risk)
                    (range_map (rangeRisks rt) (RM_Risks rm))"
  let ?sorted = "sortSlice rt ?entries"
  have org: "Register_OrganizationRisks (RM_Register (updateRegister rt rm)) = ?sorted"
    by (simp add: updateRegister_def Let_def)
  have crit: "Register_CriticalRisks (RM_Register (updateRegister rt rm)) = take 10 ?sorted"
    by (simp add: updateRegister_def Let_def)
  have perm: "mset ?sorted = mset ?entries"
    using srt by (simp add: sorts_slice_def)
  have sub: "set (rangeRisks rt) \<subseteq> dom (RM_Risks rm)"
    using ks by (simp add: range_of_def)
  have ids: "map Entry_RiskID ?entries = rangeRisks rt"
    using range_map_keys [OF sub] by (simp add: comp_def case_prod_unfold mkRiskEntry_id)
  have len: "length ?sorted = length (rangeRisks rt)"
    using mset_eq_length [OF perm] arg_cong [OF ids, of length] by simp
  have card: "card (dom (RM_Risks rm)) = length (rangeRisks rt)"
    using ks distinct_card [of "rangeRisks rt"] by (simp add: range_of_def)
  show "length (Register_CriticalRisks (RM_Register (updateRegister rt rm)))
           = min 10 (card (dom (RM_Risks rm)))"
    by (simp add: crit len card min.commute)
  have "sorted_wrt (\<lambda>a b. \<not> less_entry b a) ?sorted"
    using srt by (simp add: sorts_slice_def)
  then show "sorted_wrt by_score (Register_OrganizationRisks (RM_Register (updateRegister rt rm)))"
    unfolding org
    by (rule sorted_wrt_mono_rel [rotated]) (simp add: by_score_def less_entry_def)
  show "Register_CriticalRisks (RM_Register (updateRegister rt rm))
           = take 10 (Register_OrganizationRisks (RM_Register (updateRegister rt rm)))"
    by (simp add: org crit)
  have "mset (map Entry_RiskID ?sorted) = mset (map Entry_RiskID ?entries)"
    using perm by (metis mset_map)
  then show "mset (map Entry_RiskID (Register_OrganizationRisks (RM_Register (updateRegister rt rm))))
           = mset (rangeRisks rt)"
    by (simp only: org ids)
qed

text \<open>The insertion sort meets the promise of the library.\<close>

lemma mset_insertionSort_insert: "mset (insertionSort_insert x ys) = add_mset x (mset ys)"
  by (induction ys) simp_all

lemma set_insertionSort_insert: "set (insertionSort_insert x ys) = insert x (set ys)"
  by (induction ys) auto

lemma sorted_insertionSort_insert:
  "sorted_wrt (\<lambda>a b. \<not> less_entry a b) ys \<Longrightarrow>
   sorted_wrt (\<lambda>a b. \<not> less_entry a b) (insertionSort_insert x ys)"
  by (induction ys) (auto simp: set_insertionSort_insert less_entry_def)

lemma fold_insertionSort_insert:
  "sorted_wrt (\<lambda>a b. \<not> less_entry a b) acc \<Longrightarrow>
   mset (fold insertionSort_insert xs acc) = mset xs + mset acc
   \<and> sorted_wrt (\<lambda>a b. \<not> less_entry a b) (fold insertionSort_insert xs acc)"
  by (induction xs arbitrary: acc)
     (simp_all add: mset_insertionSort_insert sorted_insertionSort_insert)

lemma sorts_slice_insertionSort: "sorts_slice insertionSort"
  using fold_insertionSort_insert [of "[]"]
  by (simp add: sorts_slice_def insertionSort_def sorted_wrt_rev)

lemma rm_two_risks_risks:
  "RM_Risks rm_two_risks
     = [''R1'' \<mapsto> (example_risk ''R1'' [])\<lparr>Risk_Created := 5\<rparr>,
        ''R2'' \<mapsto> (example_risk ''R2'' [])\<lparr>Risk_Created := 5\<rparr>]"
  by (simp add: rm_two_risks_def IdentifyRisk_def updateRegister_def example_runtime_def
        example_risk_def NewRiskManager_def Let_def)

text \<open>
  C7. After every operation of the risk manager that recomputes the register (each of
  the six, when it succeeds), the critical risks of the register are the first ten
  entries of the organization risks, or all of them when there are fewer: their number is
  the minimum of 10 and the number of known risks, whatever the priority of the entries,
  and they are in descending order of the risk score, as the whole register is, which
  holds one entry for each known risk.
\<close>

theorem critical_view_top_ten:
  assumes "sorts_slice (sortSlice rt)"
    and "apply_RiskOp rt op rm = (None, rm')"
    and "range_of (RM_Risks rm') (rangeRisks rt)"
  shows "length (Register_CriticalRisks (RM_Register rm')) = min 10 (card (dom (RM_Risks rm')))
       \<and> sorted_wrt by_score (Register_CriticalRisks (RM_Register rm'))
       \<and> Register_CriticalRisks (RM_Register rm')
           = take 10 (Register_OrganizationRisks (RM_Register rm'))
       \<and> sorted_wrt by_score (Register_OrganizationRisks (RM_Register rm'))
       \<and> mset (map Entry_RiskID (Register_OrganizationRisks (RM_Register rm')))
           = mset (rangeRisks rt)"
proof -
  obtain rm0 where rm': "rm' = updateRegister rt rm0"
    using risk_op_updates_register [OF assms(2)] by blast
  have ks: "range_of (RM_Risks rm0) (rangeRisks rt)"
    using assms(3) by (simp add: rm' updateRegister_risks)
  note reg = updateRegister_register [OF assms(1) ks]
  have "sorted_wrt by_score (take 10 (Register_OrganizationRisks (RM_Register rm')))"
    using reg(2) by (simp add: rm' sorted_wrt_take)
  then show ?thesis
    using reg by (simp add: rm' updateRegister_risks)
qed

lemma rm_assessed_step:
  "apply_RiskOp (example_runtime [''R1'', ''R2''])
     (OpAssessRisk ''R2'' RiskLevelVeryHigh RiskLevelVeryHigh) rm_two_risks
   = (None, rm_assessed)"
  by (simp add: rm_assessed_def AssessRisk_def rm_two_risks_risks Let_def)

lemma rm_assessed_risks:
  "RM_Risks rm_assessed
     = [''R1'' \<mapsto> (example_risk ''R1'' [])\<lparr>Risk_Created := 5\<rparr>,
        ''R2'' \<mapsto> (example_risk ''R2'' [])\<lparr>Risk_Created := 5,
           Risk_Likelihood := RiskLevelVeryHigh, Risk_Impact := RiskLevelVeryHigh,
           Risk_Priority := PriorityCritical, Risk_Status := RiskStatusAssessed\<rparr>]"
  by (simp add: rm_assessed_def AssessRisk_def rm_two_risks_risks Let_def
        updateRegister_risks calculatePriority_def example_risk_def)

lemma rm_assessed_register:
  "map (\<lambda>e. (Entry_RiskID e, Entry_RiskScore e, Entry_Priority e))
     (Register_CriticalRisks (RM_Register rm_assessed))
   = [(''R2'', 16, PriorityCritical), (''R1'', 6, PriorityMedium)]"
  by (simp add: rm_assessed_def AssessRisk_def rm_two_risks_risks Let_def
        updateRegister_def calculatePriority_def example_risk_def example_runtime_def
        range_map_def mkRiskEntry_def insertionSort_def less_entry_def)

theorem critical_view_top_ten_witness:
  "sorts_slice (sortSlice (example_runtime [''R1'', ''R2'']))
   \<and> apply_RiskOp (example_runtime [''R1'', ''R2''])
        (OpAssessRisk ''R2'' RiskLevelVeryHigh RiskLevelVeryHigh) rm_two_risks
      = (None, rm_assessed)
   \<and> range_of (RM_Risks rm_assessed) (rangeRisks (example_runtime [''R1'', ''R2'']))
   \<and> length (Register_CriticalRisks (RM_Register rm_assessed)) = 2
   \<and> map (\<lambda>e. (Entry_RiskID e, Entry_RiskScore e, Entry_Priority e))
        (Register_CriticalRisks (RM_Register rm_assessed))
      = [(''R2'', 16, PriorityCritical), (''R1'', 6, PriorityMedium)]"
proof -
  have s: "sorts_slice (sortSlice (example_runtime [''R1'', ''R2'']))"
    by (simp add: example_runtime_def sorts_slice_insertionSort)
  have r: "range_of (RM_Risks rm_assessed) (rangeRisks (example_runtime [''R1'', ''R2'']))"
    by (auto simp: rm_assessed_risks range_of_def example_runtime_def)
  have c: "card (dom (RM_Risks rm_assessed)) = 2"
    by (simp add: rm_assessed_risks)
  have "length (Register_CriticalRisks (RM_Register rm_assessed))
          = min 10 (card (dom (RM_Risks rm_assessed)))"
    using critical_view_top_ten [OF s rm_assessed_step r] by (rule conjunct1)
  then have l: "length (Register_CriticalRisks (RM_Register rm_assessed)) = 2"
    by (simp only: c)
  show ?thesis
    using s r rm_assessed_step rm_assessed_register l by (intro conjI)
qed


section \<open>Failing operations\<close>

lemma risk_op_fails:
  "precondition_unmet (OnRisks op) s \<Longrightarrow>
   fst (apply_RiskOp rt op (riskManager s)) \<noteq> None
   \<and> snd (apply_RiskOp rt op (riskManager s)) = riskManager s"
  by (cases op) (auto simp: op_defs split: option.splits)

lemma risk_op_succeeds:
  "\<not> precondition_unmet (OnRisks op) s \<Longrightarrow> fst (apply_RiskOp rt op (riskManager s)) = None"
  by (cases op) (auto simp: op_defs Let_def split: option.splits)

lemma objective_op_fails:
  "precondition_unmet (OnObjectives op) s \<Longrightarrow>
   fst (apply_ObjectiveOp t op (objectivesManager s)) \<noteq> None
   \<and> snd (apply_ObjectiveOp t op (objectivesManager s)) = objectivesManager s"
  by (cases op) (auto simp: op_defs split: option.splits)

lemma objective_op_succeeds:
  "\<not> precondition_unmet (OnObjectives op) s \<Longrightarrow>
   fst (apply_ObjectiveOp t op (objectivesManager s)) = None"
  by (cases op) (auto simp: op_defs Let_def split: option.splits)

lemma audit_op_fails:
  "precondition_unmet (OnAudits op) s \<Longrightarrow>
   fst (apply_AuditOp t op (auditManager s)) \<noteq> None
   \<and> snd (apply_AuditOp t op (auditManager s)) = auditManager s"
  by (cases op) (auto simp: op_defs split: option.splits)

lemma audit_op_succeeds:
  "\<not> precondition_unmet (OnAudits op) s \<Longrightarrow> fst (apply_AuditOp t op (auditManager s)) = None"
  by (cases op) (auto simp: op_defs Let_def split: option.splits)

lemma managers_audit_started_audit:
  "AM_Audits (auditManager managers_audit_started) ''AUDIT-001''
     = Some (example_audit\<lparr>Audit_Created := 5, Audit_Modified := 5,
          Audit_ActualStartDate := Some 6, Audit_Status := AuditStatusInProgress\<rparr>)"
  by (simp add: managers_audit_started_def managers_new_def NewAuditManager_def
        CreateAudit_def StartAudit_def example_audit_def example_runtime_def Let_def)

text \<open>
  C8. An operation of the risk, objectives or audit manager returns an error exactly
  when its precondition is unmet (a required field of the record is empty, the identifier
  is unknown, or the audit to start is not planned), and then it leaves the managers as
  they were.
\<close>

theorem unmet_precondition_fails_unchanged:
  "(fst (apply_ManagerOp rt op s) \<noteq> None \<longleftrightarrow> precondition_unmet op s)
   \<and> (precondition_unmet op s \<longrightarrow> snd (apply_ManagerOp rt op s) = s)"
proof (cases op)
  case (OnRisks x)
  then show ?thesis
    using risk_op_fails [of x s rt] risk_op_succeeds [of x s rt]
    by (cases "apply_RiskOp rt x (riskManager s)") auto
next
  case (OnObjectives x)
  then show ?thesis
    using objective_op_fails [of x s "now rt"] objective_op_succeeds [of x s "now rt"]
    by (cases "apply_ObjectiveOp (now rt) x (objectivesManager s)") auto
next
  case (OnAudits x)
  then show ?thesis
    using audit_op_fails [of x s "now rt"] audit_op_succeeds [of x s "now rt"]
    by (cases "apply_AuditOp (now rt) x (auditManager s)") auto
qed

theorem unmet_precondition_fails_unchanged_witness:
  "precondition_unmet (OnAudits (OpStartAudit ''AUDIT-001'' 9)) managers_audit_started
   \<and> apply_ManagerOp (example_runtime []) (OnAudits (OpStartAudit ''AUDIT-001'' 9))
        managers_audit_started
      = (Some ''audit is not in planned status'', managers_audit_started)
   \<and> precondition_unmet (OnRisks (OpAssessRisk ''R9'' RiskLevelHigh RiskLevelHigh)) managers_new
   \<and> snd (apply_ManagerOp (example_runtime []) (OnRisks (OpAssessRisk ''R9'' RiskLevelHigh
        RiskLevelHigh)) managers_new) = managers_new
   \<and> precondition_unmet (OnRisks (OpIdentifyRisk (example_risk '''' []))) managers_new
   \<and> snd (apply_ManagerOp (example_runtime []) (OnRisks (OpIdentifyRisk (example_risk '''' [])))
        managers_new) = managers_new"
proof -
  have a: "precondition_unmet (OnAudits (OpStartAudit ''AUDIT-001'' 9)) managers_audit_started"
    by (simp add: managers_audit_started_audit)
  have b: "precondition_unmet (OnRisks (OpAssessRisk ''R9'' RiskLevelHigh RiskLevelHigh))
             managers_new"
    by (simp add: managers_new_def NewRiskManager_def)
  have c: "precondition_unmet (OnRisks (OpIdentifyRisk (example_risk '''' []))) managers_new"
    by (simp add: example_risk_def)
  have e: "fst (apply_ManagerOp (example_runtime []) (OnAudits (OpStartAudit ''AUDIT-001'' 9))
             managers_audit_started) = Some ''audit is not in planned status''"
    by (simp add: StartAudit_def managers_audit_started_audit split: prod.splits)
  have "snd (apply_ManagerOp (example_runtime []) (OnAudits (OpStartAudit ''AUDIT-001'' 9))
          managers_audit_started) = managers_audit_started"
    using a unmet_precondition_fails_unchanged
      [of "example_runtime []" "OnAudits (OpStartAudit ''AUDIT-001'' 9)" managers_audit_started]
    by blast
  then have a': "apply_ManagerOp (example_runtime []) (OnAudits (OpStartAudit ''AUDIT-001'' 9))
        managers_audit_started
      = (Some ''audit is not in planned status'', managers_audit_started)"
    using e by (simp add: prod_eq_iff)
  have b': "snd (apply_ManagerOp (example_runtime []) (OnRisks (OpAssessRisk ''R9'' RiskLevelHigh
        RiskLevelHigh)) managers_new) = managers_new"
    using b unmet_precondition_fails_unchanged
      [of "example_runtime []" "OnRisks (OpAssessRisk ''R9'' RiskLevelHigh RiskLevelHigh)"
         managers_new]
    by blast
  have c': "snd (apply_ManagerOp (example_runtime []) (OnRisks (OpIdentifyRisk
        (example_risk '''' []))) managers_new) = managers_new"
    using c unmet_precondition_fails_unchanged
      [of "example_runtime []" "OnRisks (OpIdentifyRisk (example_risk '''' []))" managers_new]
    by blast
  show ?thesis
    using a a' b b' c c' by (intro conjI)
qed

end
